theory Spec2Isabelle
  imports Main
begin

section \<open>Data model\<close>

text \<open>
  Modelled from the spec: the declarations of \<^verbatim>\<open>models/Database\<close>,
  \<^verbatim>\<open>models/MessageRequest\<close> and \<^verbatim>\<open>models/MessageResponse\<close>, which the handlers
  import and which are not among the sources. The enumerations and the rows below
  follow the data model of the specification and carry the fields the handlers read
  and write. Tables are lists of rows in insertion order, every well-formed statement
  sent to the store succeeds, and \<^verbatim>\<open>executeTakeFirst\<close> is the first row of the
  result.
\<close>

datatype MessageCreatorType = CONTACT | USER | AGENT

datatype ConversationStatusType = OPEN | CLOSED | DRAFT

datatype ConversationChannelType = WEB | SLACK

text \<open>
  A JavaScript number as far as the handlers produce one: an integer (timestamps in
  milliseconds) or the \<^verbatim>\<open>-Infinity\<close> that \<^verbatim>\<open>Math.max()\<close> returns on no arguments.
\<close>

datatype jsnumber = Finite int | NegInfinity

text \<open>A value returned by \<^verbatim>\<open>JSON.parse\<close>.\<close>

datatype json =
    JNull
  | JBool bool
  | JNum int
  | JStr string
  | JArr "json list"
  | JObj "(string \<times> json) list"

record Organisation =
  org_id :: string
  org_name :: string
  org_assistant_id :: "string option"

text \<open>
  A contact column holds the value the update handed to the driver, or stays
  \<^verbatim>\<open>None\<close> (SQL NULL) until one is written.
\<close>

record Contact =
  cont_id :: string
  cont_organisation_id :: string
  cont_name :: "json option"
  cont_email :: "json option"
  cont_phone :: "json option"
  cont_slack_id :: "string option"

record Conversation =
  conv_id :: string
  conv_organisation_id :: string
  conv_contact_id :: string
  conv_created_at :: int
  conv_last_message_at :: jsnumber
  conv_interrupted :: bool
  conv_status :: ConversationStatusType
  conv_sentiment :: int
  conv_channel :: ConversationChannelType
  conv_channel_id :: string

record Citation =
  cit_url :: "string option"

text \<open>
  Modelled from the spec: \<^verbatim>\<open>MessageResponse\<close>, whose class is not among the
  sources. It is also the row inserted into \<^verbatim>\<open>messages\<close> (\<^verbatim>\<open>NewMessage\<close> is
  built by spreading it). The identifier is drawn by the constructor; the constant
  \<^verbatim>\<open>version\<close> marker is left out.
\<close>

record MessageResponse =
  msg_id :: string
  msg_conversation_id :: string
  msg_message :: string
  msg_creator :: MessageCreatorType
  msg_created_at :: int
  msg_citations :: "Citation list option"

record Database =
  organisations :: "Organisation list"
  contacts :: "Contact list"
  conversations :: "Conversation list"
  messages :: "MessageResponse list"

record MessageRequest =
  conversation_id :: string
  message :: string
  creator :: MessageCreatorType

section \<open>JavaScript built-ins used by the handlers\<close>

text \<open>
  \<^verbatim>\<open>s.replace(pat, rep)\<close> with a string pattern: only the first occurrence is
  replaced; the empty pattern matches at position 0.
\<close>

fun replace :: "string \<Rightarrow> string \<Rightarrow> string \<Rightarrow> string" where
  "replace [] pat rep = (if pat = [] then rep else [])"
| "replace (c # cs) pat rep =
     (if take (length pat) (c # cs) = pat then rep @ drop (length pat) (c # cs)
      else c # replace cs pat rep)"

text \<open>\<^verbatim>\<open>s.includes(pat)\<close>: \<open>pat\<close> occurs in \<open>s\<close> as a contiguous run.\<close>

fun String_includes :: "string \<Rightarrow> string \<Rightarrow> bool" where
  "String_includes [] pat = (pat = [])"
| "String_includes (c # cs) pat =
     (take (length pat) (c # cs) = pat \<or> String_includes cs pat)"

text \<open>\<^verbatim>\<open>xs.findIndex(p)\<close>: the index of the first element satisfying \<open>p\<close>, or -1.\<close>

fun findIndexFrom :: "nat \<Rightarrow> ('a \<Rightarrow> bool) \<Rightarrow> 'a list \<Rightarrow> int" where
  "findIndexFrom i p [] = - 1"
| "findIndexFrom i p (x # xs) = (if p x then int i else findIndexFrom (Suc i) p xs)"

definition findIndex :: "('a \<Rightarrow> bool) \<Rightarrow> 'a list \<Rightarrow> int" where
  "findIndex p xs = findIndexFrom 0 p xs"

text \<open>
  \<^verbatim>\<open>xs.slice(start, end)\<close>: a negative bound counts from the end of the array,
  and both bounds are clamped to the array.
\<close>

definition slice :: "'a list \<Rightarrow> int \<Rightarrow> int \<Rightarrow> 'a list" where
  "slice xs start end =
     (let n = int (length xs);
          s = (if start < 0 then max (n + start) 0 else min start n);
          e = (if end < 0 then max (n + end) 0 else min end n)
      in take (nat (e - s)) (drop (nat s) xs))"

text \<open>\<^verbatim>\<open>Math.max(...xs)\<close>; on no arguments it is \<^verbatim>\<open>-Infinity\<close>.\<close>

fun Math_max :: "int list \<Rightarrow> jsnumber" where
  "Math_max [] = NegInfinity"
| "Math_max (x # xs) =
     (case Math_max xs of NegInfinity \<Rightarrow> Finite x | Finite y \<Rightarrow> Finite (max x y))"

text \<open>
  \<^verbatim>\<open>details.name\<close> on a parsed value: reading a property of \<^verbatim>\<open>null\<close> throws a
  TypeError (\<open>None\<close>); an object yields the member or \<^verbatim>\<open>undefined\<close>
  (\<open>Some None\<close>); numbers, strings, booleans and arrays have no such property.
\<close>

fun property :: "json \<Rightarrow> string \<Rightarrow> json option option" where
  "property JNull k = None"
| "property (JObj kvs) k = Some (map_of kvs k)"
| "property v k = Some None"

section \<open>The assistant client and the rest of the environment\<close>

datatype RunStatus =
    queued | in_progress | requires_action | cancelling | cancelled
  | failed | completed | incomplete | expired

record ToolCall =
  tc_id :: string
  tc_name :: string
  tc_arguments :: string

record ToolOutput =
  tool_call_id :: string
  tool_output :: string

text \<open>
  A run as the provider returns it. \<open>run_tool_calls\<close> is
  \<^verbatim>\<open>required_action.submit_tool_outputs.tool_calls\<close>; it is \<open>None\<close> when
  \<^verbatim>\<open>required_action\<close> is null, and reading through it then throws.
\<close>

record Run =
  run_id :: string
  run_thread_id :: string
  run_status :: RunStatus
  run_tool_calls :: "ToolCall list option"

datatype Role = user | assistant

record Annotation =
  ann_text :: string
  ann_is_file_citation :: bool

datatype Content =
    TextContent string "Annotation list"
  | OtherContent

record ThreadMessage =
  tm_role :: Role
  tm_content :: "Content list"
  tm_created_at :: int

text \<open>
  The provider, as the four calls the handlers make. A call that rejects
  (network error, provider error) is \<open>False\<close> or \<open>None\<close>. The list call
  takes the optional \<^verbatim>\<open>limit\<close>.
\<close>

record OpenAI =
  messages_create :: "string \<Rightarrow> string \<Rightarrow> bool"
  createAndPoll :: "string \<Rightarrow> string option \<Rightarrow> Run option"
  submitToolOutputsAndPoll :: "string \<Rightarrow> string \<Rightarrow> ToolOutput list \<Rightarrow> Run option"
  messages_list :: "string \<Rightarrow> nat option \<Rightarrow> ThreadMessage list option"

text \<open>The calls made to the provider, in order.\<close>

datatype Call =
    MessagesCreate string string
  | CreateAndPoll string "string option"
  | SubmitToolOutputs string string "ToolOutput list"
  | MessagesList string "nat option"

text \<open>
  What else a handler reads from outside: the clock, \<^verbatim>\<open>JSON.parse\<close>
  (\<open>None\<close> when it throws), \<^verbatim>\<open>JSON.stringify\<close>, and the identifier the
  \<open>k\<close>-th \<^verbatim>\<open>MessageResponse\<close> constructed by this invocation draws.
\<close>

record Env =
  Date_now :: int
  JSON_parse :: "string \<Rightarrow> json option"
  JSON_stringify :: "json \<Rightarrow> string"
  newMessageId :: "nat \<Rightarrow> string"

record HttpResponseInit =
  status :: nat
  jsonBody :: "(string + MessageResponse list) option"

section \<open>sendMessage\<close>

text \<open>
  The joined select of \<^verbatim>\<open>sendMessage\<close>: the first row of conversations joined
  with organisations on the organisation id, for the requested conversation.
\<close>

definition selectConversation ::
  "Database \<Rightarrow> string \<Rightarrow> (bool \<times> string option \<times> string) option" where
  "selectConversation db cid =
     (case [(c, og). c \<leftarrow> conversations db, og \<leftarrow> organisations db,
              conv_organisation_id c = org_id og, conv_id c = cid] of
        [] \<Rightarrow> None
      | (c, og) # _ \<Rightarrow> Some (conv_interrupted c, org_assistant_id og, conv_contact_id c))"

text \<open>
  \<^verbatim>\<open>db.updateTable("conversations").set(...).where("id", "=", cid)\<close>, in the two
  shapes \<^verbatim>\<open>saveMessageToDatabase\<close> issues.
\<close>

definition updateConversation ::
  "string \<Rightarrow> jsnumber \<Rightarrow> bool \<Rightarrow> Conversation \<Rightarrow> Conversation" where
  "updateConversation cid last_message_at setInterrupted c =
     (if conv_id c = cid then
        (if setInterrupted
         then c\<lparr>conv_last_message_at := last_message_at, conv_status := OPEN, conv_interrupted := True\<rparr>
         else c\<lparr>conv_last_message_at := last_message_at, conv_status := OPEN\<rparr>)
      else c)"

definition saveMessageToDatabase ::
  "Database \<Rightarrow> MessageResponse \<Rightarrow> MessageResponse list option \<Rightarrow> bool \<Rightarrow> Database" where
  "saveMessageToDatabase db requestToSave responses setInterrupted =
     (let last_message_at =
            (case responses of
               Some responsesToSave \<Rightarrow> Math_max (map msg_created_at responsesToSave)
             | None \<Rightarrow> Finite (msg_created_at requestToSave))
      in db\<lparr>messages := messages db @
                (case responses of
                   Some responsesToSave \<Rightarrow> requestToSave # responsesToSave
                 | None \<Rightarrow> [requestToSave]),
             conversations :=
                map (updateConversation (msg_conversation_id requestToSave)
                       last_message_at setInterrupted) (conversations db)\<rparr>)"

text \<open>
  The update of \<^verbatim>\<open>saveContactDetails\<close>: a member that is \<^verbatim>\<open>undefined\<close> is
  left out of the \<^verbatim>\<open>set\<close>, any other value is written to the column.
\<close>

definition updateContact ::
  "string \<Rightarrow> json option \<Rightarrow> json option \<Rightarrow> json option \<Rightarrow> Contact \<Rightarrow> Contact" where
  "updateContact contact_id name email phone c =
     (if cont_id c = contact_id then
        c\<lparr>cont_name := (case name of None \<Rightarrow> cont_name c | Some v \<Rightarrow> Some v),
          cont_email := (case email of None \<Rightarrow> cont_email c | Some v \<Rightarrow> Some v),
          cont_phone := (case phone of None \<Rightarrow> cont_phone c | Some v \<Rightarrow> Some v)\<rparr>
      else c)"

text \<open>
  \<^verbatim>\<open>saveContactDetails\<close>: the parse, the update and the echo of the payload sit in
  one \<^verbatim>\<open>try\<close>, and whatever throws there is answered by the failure string. The
  parse throws on malformed JSON; reading a member of \<^verbatim>\<open>null\<close> throws; and when
  all three members are \<^verbatim>\<open>undefined\<close> the update is sent with an empty
  \<^verbatim>\<open>SET\<close>, which the store rejects, so the update throws.
\<close>

definition saveContactDetails ::
  "Env \<Rightarrow> Database \<Rightarrow> string \<Rightarrow> string \<Rightarrow> string \<times> Database" where
  \<open>saveContactDetails env db contact_id data =
     (case JSON_parse env data of
        None \<Rightarrow> (''Can't parse details'', db)
      | Some details \<Rightarrow>
          (case (property details ''name'', property details ''email'',
                 property details ''phone'') of
             (Some name, Some email, Some phone) \<Rightarrow>
               if name = None \<and> email = None \<and> phone = None
               then (''Can't parse details'', db)
               else
                 (JSON_stringify env details,
                  db\<lparr>contacts :=
                       map (updateContact contact_id name email phone) (contacts db)\<rparr>)
           | _ \<Rightarrow> (''Can't parse details'', db)))\<close>

text \<open>
  The callback mapped over the tool calls of a run that requires action, with the
  database threaded through the calls in order.
\<close>

definition toolOutput ::
  "Env \<Rightarrow> string \<Rightarrow> Database \<Rightarrow> ToolCall \<Rightarrow> ToolOutput \<times> Database" where
  \<open>toolOutput env contact_id db tc =
     (if tc_name tc = ''save_contact_details''
      then (case saveContactDetails env db contact_id (tc_arguments tc) of
              (out, db') \<Rightarrow> (\<lparr>tool_call_id = tc_id tc, tool_output = out\<rparr>, db'))
      else (\<lparr>tool_call_id = tc_id tc, tool_output = ''{ "success": "true" }''\<rparr>, db))\<close>

fun toolOutputs ::
  "Env \<Rightarrow> string \<Rightarrow> Database \<Rightarrow> ToolCall list \<Rightarrow> ToolOutput list \<times> Database" where
  "toolOutputs env contact_id db [] = ([], db)"
| "toolOutputs env contact_id db (tc # tcs) =
     (case toolOutput env contact_id db tc of
        (out, db') \<Rightarrow>
          (case toolOutputs env contact_id db' tcs of
             (outs, db'') \<Rightarrow> (out # outs, db'')))"

text \<open>
  The response of every path that throws into the outer \<^verbatim>\<open>catch\<close>, and of a run
  that did not complete.
\<close>

definition failedToSend :: HttpResponseInit where
  "failedToSend = \<lparr>status = 500, jsonBody = Some (Inl ''Failed to send message'')\<rparr>"

text \<open>
  The tool-call round of \<^verbatim>\<open>sendMessage\<close>: a run that requires action has one
  output computed per tool call and is resubmitted; any other run is passed on as it
  is. The first component is \<open>None\<close> when a step throws.
\<close>

definition resolveRequiredAction ::
  "Env \<Rightarrow> OpenAI \<Rightarrow> Database \<Rightarrow> string \<Rightarrow> string \<Rightarrow> Run
     \<Rightarrow> Run option \<times> Database \<times> Call list" where
  "resolveRequiredAction env openai db thread_id contact_id run =
     (if run_status run = requires_action then
        (case run_tool_calls run of
           None \<Rightarrow> (None, db, [])
         | Some tool_calls \<Rightarrow>
             (case toolOutputs env contact_id db tool_calls of
                (tool_outputs, db') \<Rightarrow>
                  (submitToolOutputsAndPoll openai thread_id (run_id run) tool_outputs, db',
                   [SubmitToolOutputs thread_id (run_id run) tool_outputs])))
      else (Some run, db, []))"

text \<open>
  The loop over the selected thread messages: a message whose first content block is
  text becomes an AGENT response stamped with the provider's time in milliseconds, any
  other first block is skipped, and a message with no content block throws
  (\<open>None\<close>). \<open>k\<close> counts the responses constructed so far.
\<close>

fun collectResponses ::
  "Env \<Rightarrow> string \<Rightarrow> nat \<Rightarrow> ThreadMessage list \<Rightarrow> MessageResponse list option" where
  "collectResponses env cid k [] = Some []"
| "collectResponses env cid k (m # ms) =
     (case tm_content m of
        [] \<Rightarrow> None
      | TextContent v anns # _ \<Rightarrow>
          map_option
            ((#) \<lparr>msg_id = newMessageId env k, msg_conversation_id = cid, msg_message = v,
                  msg_creator = AGENT, msg_created_at = tm_created_at m * 1000,
                  msg_citations = None\<rparr>)
            (collectResponses env cid (Suc k) ms)
      | OtherContent # _ \<Rightarrow> collectResponses env cid k ms)"

text \<open>
  The messages of the thread taken as the assistant's reply:
  \<^verbatim>\<open>data.slice(0, data.findIndex((m) => m.role === "user"))\<close>.
\<close>

definition sinceLastUserMessage :: "ThreadMessage list \<Rightarrow> ThreadMessage list" where
  "sinceLastUserMessage data = slice data 0 (findIndex (\<lambda>m. tm_role m = user) data)"

text \<open>
  The run of the \<^verbatim>\<open>else\<close> branch of \<^verbatim>\<open>sendMessage\<close>: the message is appended
  to the thread, a run is started and polled, and one round of tool calls is resolved.
  The first component is the run the handler then inspects, \<open>None\<close> when a step
  threw.
\<close>

definition runAssistant ::
  "Env \<Rightarrow> OpenAI \<Rightarrow> Database \<Rightarrow> MessageRequest \<Rightarrow> string option \<Rightarrow> string
     \<Rightarrow> Run option \<times> Database \<times> Call list" where
  "runAssistant env openai db messageRequest assistant_id contact_id =
     (let thread_id = replace (conversation_id messageRequest) ''conv_'' ''thread_'';
          c1 = [MessagesCreate thread_id (message messageRequest)];
          c2 = c1 @ [CreateAndPoll thread_id assistant_id]
      in if \<not> messages_create openai thread_id (message messageRequest)
         then (None, db, c1)
         else
           (case createAndPoll openai thread_id assistant_id of
              None \<Rightarrow> (None, db, c2)
            | Some run \<Rightarrow>
                (case resolveRequiredAction env openai db thread_id contact_id run of
                   (run', db', c3) \<Rightarrow> (run', db', c2 @ c3))))"

text \<open>
  The rest of the \<^verbatim>\<open>else\<close> branch: a completed run has its reply collected,
  saved with the inbound message and returned; any other run is answered with 500
  and nothing more is written.
\<close>

definition askAssistant ::
  "Env \<Rightarrow> OpenAI \<Rightarrow> Database \<Rightarrow> MessageRequest \<Rightarrow> MessageResponse \<Rightarrow> string option
     \<Rightarrow> string \<Rightarrow> HttpResponseInit \<times> Database \<times> Call list" where
  "askAssistant env openai db messageRequest newMessageRequest assistant_id contact_id =
     (case runAssistant env openai db messageRequest assistant_id contact_id of
        (None, db1, calls) \<Rightarrow> (failedToSend, db1, calls)
      | (Some run, db1, calls) \<Rightarrow>
          if run_status run = completed then
            (case messages_list openai (run_thread_id run) None of
               None \<Rightarrow> (failedToSend, db1, calls @ [MessagesList (run_thread_id run) None])
             | Some data \<Rightarrow>
                 (case collectResponses env (conversation_id messageRequest) 1
                         (sinceLastUserMessage data) of
                    None \<Rightarrow>
                      (failedToSend, db1, calls @ [MessagesList (run_thread_id run) None])
                  | Some messageResponse \<Rightarrow>
                      (\<lparr>status = 200, jsonBody = Some (Inr messageResponse)\<rparr>,
                       saveMessageToDatabase db1 newMessageRequest (Some messageResponse) False,
                       calls @ [MessagesList (run_thread_id run) None])))
          else (failedToSend, db1, calls))"

text \<open>
  The handler. Its result is the HTTP response, the database after the call and the
  calls made to the provider. The body is \<open>None\<close> when \<^verbatim>\<open>request.json()\<close>
  throws; destructuring the result of the select throws when no row was found.
\<close>

definition inboundMessage :: "Env \<Rightarrow> MessageRequest \<Rightarrow> MessageResponse" where
  "inboundMessage env messageRequest =
     \<lparr>msg_id = newMessageId env 0, msg_conversation_id = conversation_id messageRequest,
      msg_message = message messageRequest, msg_creator = creator messageRequest,
      msg_created_at = Date_now env, msg_citations = None\<rparr>"

definition sendMessage ::
  "Env \<Rightarrow> OpenAI \<Rightarrow> Database \<Rightarrow> MessageRequest option
     \<Rightarrow> HttpResponseInit \<times> Database \<times> Call list" where
  "sendMessage env openai db body =
     (case body of
        None \<Rightarrow> (failedToSend, db, [])
      | Some messageRequest \<Rightarrow>
          (case selectConversation db (conversation_id messageRequest) of
             None \<Rightarrow> (failedToSend, db, [])
           | Some (interrupted, assistant_id, contact_id) \<Rightarrow>
               (let newMessageRequest = inboundMessage env messageRequest
                in if interrupted \<or> creator messageRequest = USER
                   then (\<lparr>status = 200, jsonBody = None\<rparr>,
                         saveMessageToDatabase db newMessageRequest None True, [])
                   else askAssistant env openai db messageRequest newMessageRequest
                          assistant_id contact_id)))"

text \<open>The outbound sequence a response carries: the messages of its body, if any.\<close>

definition outbound :: "HttpResponseInit \<Rightarrow> MessageResponse list" where
  "outbound r = (case jsonBody r of Some (Inr ms) \<Rightarrow> ms | _ \<Rightarrow> [])"

section \<open>The assistant handler with citation stripping\<close>

text \<open>
  The loop of \<^verbatim>\<open>processOpenAIMessage\<close> over the annotations of a text block: each
  annotation removes the first occurrence of its text from the message text.
\<close>

definition stripAnnotations :: "string \<Rightarrow> Annotation list \<Rightarrow> string" where
  "stripAnnotations messageTextContent annotations =
     fold (\<lambda>annotation text. replace text (ann_text annotation) '''')
       annotations messageTextContent"

text \<open>
  \<^verbatim>\<open>processOpenAIMessage\<close>: \<open>None\<close> when reading the first content block throws,
  \<open>Some None\<close> when the function falls through and returns \<^verbatim>\<open>undefined\<close>.
\<close>

definition processOpenAIMessage ::
  "Env \<Rightarrow> nat \<Rightarrow> ThreadMessage \<Rightarrow> string \<Rightarrow> MessageResponse option option" where
  "processOpenAIMessage env k message' conversation_id' =
     (case tm_content message' of
        [] \<Rightarrow> None
      | TextContent v annotations # _ \<Rightarrow>
          Some (Some \<lparr>msg_id = newMessageId env k, msg_conversation_id = conversation_id',
                       msg_message = stripAnnotations v annotations, msg_creator = AGENT,
                       msg_created_at = tm_created_at message' * 1000,
                       msg_citations = None\<rparr>)
      | OtherContent # _ \<Rightarrow> Some None)"

fun collectProcessed ::
  "Env \<Rightarrow> string \<Rightarrow> nat \<Rightarrow> ThreadMessage list \<Rightarrow> MessageResponse list option" where
  "collectProcessed env cid k [] = Some []"
| "collectProcessed env cid k (m # ms) =
     (case tm_content m of
        [] \<Rightarrow> None
      | TextContent v anns # _ \<Rightarrow>
          (case processOpenAIMessage env k m cid of
             Some (Some r) \<Rightarrow> map_option ((#) r) (collectProcessed env cid (Suc k) ms)
           | _ \<Rightarrow> None)
      | OtherContent # _ \<Rightarrow> collectProcessed env cid k ms)"

text \<open>
  \<^verbatim>\<open>handleMessageForOpenAI\<close>: the same run as above, the five most recent thread
  messages, and an error thrown (\<open>None\<close>) when the run did not complete.
\<close>

definition handleMessageForOpenAI ::
  "Env \<Rightarrow> OpenAI \<Rightarrow> Database \<Rightarrow> MessageRequest \<Rightarrow> string option \<Rightarrow> string
     \<Rightarrow> MessageResponse list option \<times> Database \<times> Call list" where
  "handleMessageForOpenAI env openai db messageRequest assistant_id contact_id =
     (case runAssistant env openai db messageRequest assistant_id contact_id of
        (None, db1, calls) \<Rightarrow> (None, db1, calls)
      | (Some run, db1, calls) \<Rightarrow>
          if run_status run = completed then
            (case messages_list openai (run_thread_id run) (Some 5) of
               None \<Rightarrow> (None, db1, calls @ [MessagesList (run_thread_id run) (Some 5)])
             | Some data \<Rightarrow>
                 (collectProcessed env (conversation_id messageRequest) 0
                    (sinceLastUserMessage data),
                  db1, calls @ [MessagesList (run_thread_id run) (Some 5)]))
          else (None, db1, calls))"

section \<open>The Slack bot event path\<close>

record SlackBotMessageEvent =
  ev_organisation_id :: string
  ev_message :: string
  ev_user_id :: string
  ev_channel_id :: string
  ev_thread_ts :: string

text \<open>The fields of the Slack user the handler reads.\<close>

record SlackUser =
  su_id :: string
  su_real_name :: string
  su_email :: "string option"
  su_phone :: "string option"
  su_is_admin :: bool

text \<open>The calls the Slack handler makes to the outside, in order.\<close>

datatype SlackCall =
    UsersInfo string
  | AssistantCall "string option" string
  | PostMessage string string string

text \<open>
  What the Slack handler reads from outside. \<^verbatim>\<open>handleSingleMessageForOpenAI\<close> and
  \<^verbatim>\<open>saveMessageResponsesToDatabase\<close> are imported by the handler and taken here as
  they behave (\<open>None\<close> when they throw), as are the Slack API (\<open>None\<close> or
  \<open>False\<close> when the request rejects), \<^verbatim>\<open>createID\<close> by its prefix, and the
  clock at each of its three readings.
\<close>

record SlackEnv =
  getUserFromSlack :: "string \<Rightarrow> SlackUser option"
  handleSingleMessageForOpenAI :: "string option \<Rightarrow> string \<Rightarrow> MessageResponse list option"
  chat_postMessage :: "string \<Rightarrow> string \<Rightarrow> string \<Rightarrow> bool"
  saveMessageResponsesToDatabase ::
    "Database \<Rightarrow> MessageResponse list \<Rightarrow> bool \<Rightarrow> Database option"
  createID :: "string \<Rightarrow> string"
  now_created_at :: int
  now_last_message_at :: int
  now_inbound :: int

definition checkGetContactID ::
  "SlackEnv \<Rightarrow> Database \<Rightarrow> string \<Rightarrow> string \<Rightarrow> string option \<Rightarrow> string option \<Rightarrow> string
     \<Rightarrow> string \<times> Database" where
  "checkGetContactID env db slack_id slack_name slack_email slack_phone organisation_id =
     (let contact_id = createID env ''cont'';
          newContact =
            \<lparr>cont_id = contact_id, cont_organisation_id = organisation_id,
             cont_name = Some (JStr slack_name), cont_email = map_option JStr slack_email,
             cont_phone = map_option JStr slack_phone, cont_slack_id = Some slack_id\<rparr>
      in case find (\<lambda>c. cont_slack_id c = Some slack_id) (contacts db) of
           None \<Rightarrow> (contact_id, db\<lparr>contacts := contacts db @ [newContact]\<rparr>)
         | Some contact \<Rightarrow>
             if cont_id contact \<noteq> [] then (cont_id contact, db)
             else (contact_id, db\<lparr>contacts := contacts db @ [newContact]\<rparr>))"

definition checkGetConversation ::
  "SlackEnv \<Rightarrow> Database \<Rightarrow> string \<Rightarrow> string \<Rightarrow> bool \<Rightarrow> string
     \<Rightarrow> string option \<times> Database" where
  "checkGetConversation env db thread_ts organisation_id messageIsFromAdmin contact_id =
     (let conversation_id' = createID env ''conv'';
          newConversation =
            \<lparr>conv_id = conversation_id', conv_organisation_id = organisation_id,
             conv_contact_id = contact_id, conv_created_at = now_created_at env,
             conv_last_message_at = Finite (now_last_message_at env),
             conv_interrupted = False, conv_status = OPEN, conv_sentiment = 0,
             conv_channel = SLACK, conv_channel_id = thread_ts\<rparr>;
          existing =
            (case find (\<lambda>c. conv_channel_id c = thread_ts) (conversations db) of
               None \<Rightarrow> None
             | Some conversation \<Rightarrow>
                 if conv_id conversation \<noteq> [] then Some (conv_id conversation) else None)
      in case existing of
           Some cid \<Rightarrow>
             if messageIsFromAdmin
             then (Some cid,
                   db\<lparr>conversations :=
                        map (\<lambda>c. if conv_id c = cid then c\<lparr>conv_interrupted := True\<rparr> else c)
                          (conversations db)\<rparr>)
             else (Some cid, db)
         | None \<Rightarrow>
             if \<not> messageIsFromAdmin
             then (Some conversation_id',
                   db\<lparr>conversations := conversations db @ [newConversation]\<rparr>)
             else (None, db))"

text \<open>\<^verbatim>\<open>xs.join(sep)\<close>.\<close>

fun join :: "string \<Rightarrow> string list \<Rightarrow> string" where
  "join sep [] = []"
| "join sep [x] = x"
| "join sep (x # y # ys) = x @ sep @ join sep (y # ys)"

text \<open>
  The text posted back to the thread: the messages joined by newlines, the
  non-empty citation URLs, and the fixed closing line.
\<close>

definition citationsWithURLs :: "MessageResponse list \<Rightarrow> string list" where
  "citationsWithURLs messageResponse =
     concat (map (\<lambda>m. case msg_citations m of
                          None \<Rightarrow> []
                        | Some cs \<Rightarrow>
                            concat (map (\<lambda>c. case cit_url c of
                                                None \<Rightarrow> []
                                              | Some u \<Rightarrow> if u = [] then [] else [u]) cs))
               messageResponse)"

definition slackResponseText :: "MessageResponse list \<Rightarrow> string" where
  "slackResponseText messageResponse =
     (let response = join [CHR 0x0A] (map msg_message messageResponse);
          urls = citationsWithURLs messageResponse;
          response' =
            (if length urls > 0
             then response @ [CHR 0x0A, CHR 0x0A] @ ''These links might help you:''
                    @ [CHR 0x0A] @ join [CHR 0x0A] urls
             else response)
      in response' @ [CHR 0x0A]
           @ ''If this solved your question give the message a :white_check_mark:'')"

definition apology :: string where
  "apology = ''An error occured wth this message, please contact your adminstrator.''"

text \<open>
  The first \<^verbatim>\<open>if\<close> of \<^verbatim>\<open>processSlackBotMessage\<close>: a sender who is not an admin
  is answered. The first component is \<open>None\<close> when a step throws, otherwise the
  value of \<^verbatim>\<open>messageResponse\<close> (\<open>None\<close> for \<^verbatim>\<open>undefined\<close>).
\<close>

definition answerSender ::
  "SlackEnv \<Rightarrow> SlackBotMessageEvent \<Rightarrow> string option \<Rightarrow> bool
     \<Rightarrow> MessageResponse list option option \<times> SlackCall list" where
  "answerSender env data assistant_id is_admin =
     (if \<not> is_admin then
        (case handleSingleMessageForOpenAI env assistant_id (ev_message data) of
           None \<Rightarrow> (None, [AssistantCall assistant_id (ev_message data)])
         | Some messageResponse \<Rightarrow>
             (let post = PostMessage (ev_channel_id data)
                           (slackResponseText messageResponse) (ev_thread_ts data)
              in if chat_postMessage env (ev_channel_id data)
                      (slackResponseText messageResponse) (ev_thread_ts data)
                 then (Some (Some messageResponse),
                       [AssistantCall assistant_id (ev_message data), post])
                 else (None, [AssistantCall assistant_id (ev_message data), post])))
      else (Some None, []))"

text \<open>
  The second \<^verbatim>\<open>if\<close>: with a conversation, the inbound message is inserted and the
  responses, restamped after it by their index, are saved. The flag is true when
  saving threw.
\<close>

definition restamp :: "string \<Rightarrow> int \<Rightarrow> MessageResponse list \<Rightarrow> MessageResponse list" where
  "restamp conversation_id' inbound_created_at messageResponse =
     map (\<lambda>(index, mr). mr\<lparr>msg_conversation_id := conversation_id',
                             msg_created_at := inbound_created_at + int index + 1\<rparr>)
       (enumerate 0 messageResponse)"

definition saveExchange ::
  "SlackEnv \<Rightarrow> Database \<Rightarrow> SlackBotMessageEvent \<Rightarrow> bool \<Rightarrow> string option
     \<Rightarrow> MessageResponse list option \<Rightarrow> Database \<times> bool" where
  "saveExchange env db data is_admin conversation_id' messageResponse =
     (case conversation_id' of
        None \<Rightarrow> (db, False)
      | Some cid \<Rightarrow>
          if cid = [] then (db, False)
          else
            (let inboundMessage' =
                   \<lparr>msg_id = createID env ''msg'', msg_conversation_id = cid,
                    msg_message = ev_message data,
                    msg_creator = (if is_admin then USER else CONTACT),
                    msg_created_at = now_inbound env, msg_citations = None\<rparr>;
                 db1 = db\<lparr>messages := messages db @ [inboundMessage']\<rparr>
             in case messageResponse of
                  None \<Rightarrow> (db1, False)
                | Some rs \<Rightarrow>
                    (case saveMessageResponsesToDatabase env db1
                            (restamp cid (now_inbound env) rs) False of
                       None \<Rightarrow> (db1, True)
                     | Some db2 \<Rightarrow> (db2, False))))"

text \<open>
  The handler: the database after the event and the calls made. Whatever throws is
  caught and answered by posting the apology to the thread.
\<close>

definition processSlackBotMessage ::
  "SlackEnv \<Rightarrow> Database \<Rightarrow> SlackBotMessageEvent \<Rightarrow> Database \<times> SlackCall list" where
  "processSlackBotMessage env db data =
     (let caught = [PostMessage (ev_channel_id data) apology (ev_thread_ts data)]
      in case find (\<lambda>og. org_id og = ev_organisation_id data) (organisations db) of
           None \<Rightarrow> (db, caught)
         | Some og \<Rightarrow>
             (case getUserFromSlack env (ev_user_id data) of
                None \<Rightarrow> (db, UsersInfo (ev_user_id data) # caught)
              | Some slackUser \<Rightarrow>
                  (case checkGetContactID env db (su_id slackUser) (su_real_name slackUser)
                          (su_email slackUser) (su_phone slackUser)
                          (ev_organisation_id data) of
                     (contact_id, db1) \<Rightarrow>
                  (case checkGetConversation env db1 (ev_thread_ts data)
                          (ev_organisation_id data) (su_is_admin slackUser) contact_id of
                     (conversation_id', db2) \<Rightarrow>
                  (case answerSender env data (org_assistant_id og) (su_is_admin slackUser) of
                     (None, calls) \<Rightarrow> (db2, UsersInfo (ev_user_id data) # calls @ caught)
                   | (Some messageResponse, calls) \<Rightarrow>
                       (case saveExchange env db2 data (su_is_admin slackUser)
                               conversation_id' messageResponse of
                          (db3, threw) \<Rightarrow>
                            (db3, UsersInfo (ev_user_id data) # calls
                                    @ (if threw then caught else []))))))))"

section \<open>Concrete inputs\<close>

text \<open>
  A small store, a clock reading, a provider and a JSON library restricted to the
  payloads used below; the theorems are instantiated at them.
\<close>

definition email_payload :: string where
  \<open>email_payload = ''{"email":"a@b.com"}''\<close>

definition example_parse :: "string \<Rightarrow> json option" where
  "example_parse s =
     (if s = email_payload then Some (JObj [(''email'', JStr ''a@b.com'')])
      else if s = ''{}'' then Some (JObj [])
      else if s = ''null'' then Some JNull
      else None)"

definition example_stringify :: "json \<Rightarrow> string" where
  "example_stringify v =
     (if v = JObj [(''email'', JStr ''a@b.com'')] then email_payload
      else if v = JObj [] then ''{}''
      else ''null'')"

definition example_env :: Env where
  "example_env =
     \<lparr>Date_now = 1700000000500, JSON_parse = example_parse,
      JSON_stringify = example_stringify,
      newMessageId = (\<lambda>k. ''msg_'' @ replicate k (CHR ''i''))\<rparr>"

definition example_conversation :: "bool \<Rightarrow> Conversation" where
  "example_conversation interrupted =
     \<lparr>conv_id = ''conv_1'', conv_organisation_id = ''org_1'', conv_contact_id = ''cont_1'',
      conv_created_at = 1000, conv_last_message_at = Finite 1000,
      conv_interrupted = interrupted, conv_status = CLOSED, conv_sentiment = 0,
      conv_channel = SLACK, conv_channel_id = ''1700.01''\<rparr>"

definition example_contact :: Contact where
  "example_contact =
     \<lparr>cont_id = ''cont_1'', cont_organisation_id = ''org_1'', cont_name = None,
      cont_email = None, cont_phone = None, cont_slack_id = Some ''U1''\<rparr>"

definition example_db :: "bool \<Rightarrow> Database" where
  "example_db interrupted =
     \<lparr>organisations =
        [\<lparr>org_id = ''org_1'', org_name = ''Acme'', org_assistant_id = Some ''asst_1''\<rparr>],
      contacts = [example_contact],
      conversations = [example_conversation interrupted],
      messages = []\<rparr>"

definition example_request :: "string \<Rightarrow> MessageCreatorType \<Rightarrow> MessageRequest" where
  "example_request cid who = \<lparr>conversation_id = cid, message = ''hi'', creator = who\<rparr>"

definition example_run :: "RunStatus \<Rightarrow> ToolCall list option \<Rightarrow> Run" where
  "example_run st tcs =
     \<lparr>run_id = ''run_1'', run_thread_id = ''thread_1'', run_status = st,
      run_tool_calls = tcs\<rparr>"

definition example_openai :: "Run \<Rightarrow> Run \<Rightarrow> ThreadMessage list \<Rightarrow> OpenAI" where
  "example_openai run0 run1 data =
     \<lparr>messages_create = (\<lambda>thread_id content. True),
      createAndPoll = (\<lambda>thread_id assistant_id. Some run0),
      submitToolOutputsAndPoll = (\<lambda>thread_id rid outs. Some run1),
      messages_list = (\<lambda>thread_id limit. Some data)\<rparr>"

definition example_message :: "Role \<Rightarrow> string \<Rightarrow> int \<Rightarrow> ThreadMessage" where
  "example_message r t secs =
     \<lparr>tm_role = r, tm_content = [TextContent t []], tm_created_at = secs\<rparr>"

text \<open>A reply of two assistant messages, most recent first, after the user's turn.\<close>

definition two_replies :: "ThreadMessage list" where
  "two_replies =
     [example_message assistant ''Anything else?'' 1700000003,
      example_message assistant ''Hello!'' 1700000002,
      example_message user ''hi'' 1700000000]"

text \<open>
  A reply whose only message starts with an image block, and a thread on which the run
  completed without a new assistant message.
\<close>

definition image_reply :: "ThreadMessage list" where
  "image_reply =
     [\<lparr>tm_role = assistant, tm_content = [OtherContent], tm_created_at = 1700000002\<rparr>,
      example_message user ''hi'' 1700000000]"

definition no_reply :: "ThreadMessage list" where
  "no_reply = [example_message user ''hi'' 1700000000]"

text \<open>A thread holding assistant messages only, most recent first.\<close>

definition assistant_only :: "ThreadMessage list" where
  "assistant_only =
     [example_message assistant ''third'' 1700000003,
      example_message assistant ''second'' 1700000002,
      example_message assistant ''first'' 1700000001]"

definition example_tool_calls :: "ToolCall list" where
  "example_tool_calls =
     [\<lparr>tc_id = ''call_1'', tc_name = ''save_contact_details'', tc_arguments = email_payload\<rparr>,
      \<lparr>tc_id = ''call_2'', tc_name = ''save_contact_details'', tc_arguments = ''{''\<rparr>,
      \<lparr>tc_id = ''call_3'', tc_name = ''lookup_order'', tc_arguments = ''{}''\<rparr>]"

text \<open>The same calls, and one whose payload parses to an object with no member.\<close>

definition example_tool_calls_empty :: "ToolCall list" where
  "example_tool_calls_empty =
     example_tool_calls
       @ [\<lparr>tc_id = ''call_4'', tc_name = ''save_contact_details'', tc_arguments = ''{}''\<rparr>]"

text \<open>
  A message of two plain segments around a citation marker that occurs twice, each
  occurrence carrying its own annotation.
\<close>

definition annotated_text :: string where
  "annotated_text = ''See [1] and [1].''"

text \<open>A thread of assistant messages only whose most recent one starts with an image.\<close>

definition assistant_only_image :: "ThreadMessage list" where
  "assistant_only_image =
     [\<lparr>tm_role = assistant, tm_content = [OtherContent], tm_created_at = 1700000003\<rparr>,
      example_message assistant ''second'' 1700000002,
      example_message assistant ''first'' 1700000001]"

text \<open>A citation marker, and a text in which it occurs twice.\<close>

definition marker :: Annotation where
  "marker = \<lparr>ann_text = ''[1]'', ann_is_file_citation = True\<rparr>"

definition cited_twice :: string where
  "cited_twice = ''See the guide [1][1].''"

definition example_event :: SlackBotMessageEvent where
  "example_event =
     \<lparr>ev_organisation_id = ''org_1'', ev_message = ''hi'', ev_user_id = ''U1'',
      ev_channel_id = ''C1'', ev_thread_ts = ''1700.01''\<rparr>"

definition example_slack_user :: "bool \<Rightarrow> SlackUser" where
  "example_slack_user is_admin =
     \<lparr>su_id = ''U1'', su_real_name = ''Ann'', su_email = None, su_phone = None,
      su_is_admin = is_admin\<rparr>"

definition example_reply :: "MessageResponse list" where
  "example_reply =
     [\<lparr>msg_id = ''msg_1'', msg_conversation_id = [], msg_message = ''Hello!'',
       msg_creator = AGENT, msg_created_at = 1700000002000, msg_citations = None\<rparr>]"

definition example_slack_env :: "bool \<Rightarrow> SlackEnv" where
  "example_slack_env is_admin =
     \<lparr>getUserFromSlack = (\<lambda>user_id. Some (example_slack_user is_admin)),
      handleSingleMessageForOpenAI = (\<lambda>assistant_id text. Some example_reply),
      chat_postMessage = (\<lambda>channel text thread_ts. True),
      saveMessageResponsesToDatabase =
        (\<lambda>db rs setInterrupted. Some (db\<lparr>messages := messages db @ rs\<rparr>)),
      createID = (\<lambda>prefix. prefix @ ''_new''),
      now_created_at = 1700000000400, now_last_message_at = 1700000000401,
      now_inbound = 1700000000500\<rparr>"

section \<open>Facts about the built-ins and the store\<close>

lemmas handler_defs =
  sendMessage_def askAssistant_def runAssistant_def resolveRequiredAction_def
  saveMessageToDatabase_def updateConversation_def inboundMessage_def
  selectConversation_def failedToSend_def outbound_def sinceLastUserMessage_def
  findIndex_def slice_def toolOutput_def saveContactDetails_def updateContact_def

lemmas example_defs =
  example_env_def example_db_def example_conversation_def example_contact_def
  example_request_def example_run_def example_openai_def example_message_def
  example_parse_def example_stringify_def email_payload_def two_replies_def
  assistant_only_def example_tool_calls_def image_reply_def no_reply_def
  example_tool_calls_empty_def assistant_only_image_def annotated_text_def

lemma selectConversation_row:
  assumes "selectConversation db cid = Some (i, a, k)"
  shows "\<exists>c\<in>set (conversations db).
           conv_id c = cid \<and> conv_interrupted c = i \<and> conv_contact_id c = k"
proof -
  let ?rows = "[(c, og). c \<leftarrow> conversations db, og \<leftarrow> organisations db,
                 conv_organisation_id c = org_id og, conv_id c = cid]"
  from assms obtain c og rs where r: "?rows = (c, og) # rs"
    and i: "conv_interrupted c = i" "conv_contact_id c = k"
    unfolding selectConversation_def by (auto split: list.splits)
  from r have "(c, og) \<in> set ?rows" by simp
  with i show ?thesis by (auto split: if_splits)
qed

lemma selectConversation_absent:
  assumes "\<forall>c\<in>set (conversations db). conv_id c \<noteq> cid"
  shows "selectConversation db cid = None"
proof -
  let ?rows = "[(c, og). c \<leftarrow> conversations db, og \<leftarrow> organisations db,
                 conv_organisation_id c = org_id og, conv_id c = cid]"
  have "set ?rows = {}" using assms by auto
  then have "?rows = []" by (simp only: set_empty)
  then show ?thesis unfolding selectConversation_def by (simp only: list.case)
qed

lemma gate_result:
  assumes "selectConversation db (conversation_id req) = Some (interrupted, assistant_id, contact_id)"
      and "interrupted \<or> creator req = USER"
  shows "sendMessage env openai db (Some req) =
           (\<lparr>status = 200, jsonBody = None\<rparr>,
            saveMessageToDatabase db (inboundMessage env req) None True, [])"
  using assms by (auto simp: sendMessage_def)

lemma gate_conversations:
  "conversations (saveMessageToDatabase db (inboundMessage env req) None True) =
     map (updateConversation (conversation_id req) (Finite (Date_now env)) True)
       (conversations db)"
  by (simp add: saveMessageToDatabase_def inboundMessage_def)

section \<open>The escalation gate\<close>

text \<open>
  C1. When the conversation resolves and it is interrupted, or the creator of the
  inbound message is USER, \<open>sendMessage\<close> makes no call to the assistant client and
  answers 200 with no body (an empty outbound sequence). The database after the call
  is the one before it with exactly one message appended, the inbound message (the
  request's conversation id, text and creator, stamped with the clock), and with
  \<open>interrupted = true\<close>, \<open>status = OPEN\<close> and the inbound timestamp as
  \<open>last_message_at\<close> on the conversation of the request; every other conversation,
  the contacts and the organisations are as before.
\<close>

theorem escalation_gate:
  assumes sel: "selectConversation db (conversation_id req) =
                  Some (interrupted, assistant_id, contact_id)"
      and gate: "interrupted \<or> creator req = USER"
      and res: "sendMessage env openai db (Some req) = (response, db', calls)"
  shows "calls = [] \<and> response = \<lparr>status = 200, jsonBody = None\<rparr>
       \<and> outbound response = []
       \<and> db' = db
           \<lparr>messages := messages db @
              [\<lparr>msg_id = newMessageId env 0, msg_conversation_id = conversation_id req,
                msg_message = message req, msg_creator = creator req,
                msg_created_at = Date_now env, msg_citations = None\<rparr>],
            conversations :=
              map (\<lambda>c. if conv_id c = conversation_id req
                        then c\<lparr>conv_last_message_at := Finite (Date_now env),
                               conv_status := OPEN, conv_interrupted := True\<rparr>
                        else c)
                (conversations db)\<rparr>
       \<and> (\<exists>c\<in>set (conversations db').
             conv_id c = conversation_id req \<and> conv_interrupted c \<and> conv_status c = OPEN)"
proof -
  from gate_result[OF sel gate, of env openai] res
  have r: "response = \<lparr>status = 200, jsonBody = None\<rparr>"
    and d: "db' = saveMessageToDatabase db (inboundMessage env req) None True"
    and c: "calls = []"
    by simp_all
  let ?u = "\<lambda>c. if conv_id c = conversation_id req
                 then c\<lparr>conv_last_message_at := Finite (Date_now env),
                        conv_status := OPEN, conv_interrupted := True\<rparr>
                 else c"
  have u: "updateConversation (conversation_id req) (Finite (Date_now env)) True = ?u"
    by (rule ext) (simp add: updateConversation_def)
  have db': "db' = db
           \<lparr>messages := messages db @
              [\<lparr>msg_id = newMessageId env 0, msg_conversation_id = conversation_id req,
                msg_message = message req, msg_creator = creator req,
                msg_created_at = Date_now env, msg_citations = None\<rparr>],
            conversations := map ?u (conversations db)\<rparr>"
    unfolding d by (simp add: saveMessageToDatabase_def inboundMessage_def u)
  from selectConversation_row[OF sel] obtain c0
    where c0: "c0 \<in> set (conversations db)" "conv_id c0 = conversation_id req"
    by blast
  have "?u c0 \<in> set (conversations db')"
    unfolding db' using c0(1) by simp
  moreover have "conv_id (?u c0) = conversation_id req \<and> conv_interrupted (?u c0)
                 \<and> conv_status (?u c0) = OPEN"
    using c0(2) by simp
  ultimately have ex: "\<exists>c\<in>set (conversations db').
             conv_id c = conversation_id req \<and> conv_interrupted c \<and> conv_status c = OPEN"
    by blast
  have o: "outbound response = []" by (simp add: r outbound_def)
  show ?thesis by (rule conjI[OF c conjI[OF r conjI[OF o conjI[OF db' ex]]]])
qed

theorem escalation_gate_witness:
  "selectConversation (example_db False) ''conv_1'' = Some (False, Some ''asst_1'', ''cont_1'')
   \<and> snd (snd (sendMessage example_env
                  (example_openai (example_run completed None) (example_run completed None)
                     two_replies)
                  (example_db False) (Some (example_request ''conv_1'' USER)))) = []
   \<and> messages (fst (snd (sendMessage example_env
                  (example_openai (example_run completed None) (example_run completed None)
                     two_replies)
                  (example_db False) (Some (example_request ''conv_1'' USER))))) =
       [\<lparr>msg_id = ''msg_'', msg_conversation_id = ''conv_1'', msg_message = ''hi'',
         msg_creator = USER, msg_created_at = 1700000000500, msg_citations = None\<rparr>]
   \<and> conversations (fst (snd (sendMessage example_env
                  (example_openai (example_run completed None) (example_run completed None)
                     two_replies)
                  (example_db False) (Some (example_request ''conv_1'' USER))))) =
       [(example_conversation False)
          \<lparr>conv_last_message_at := Finite 1700000000500, conv_status := OPEN,
           conv_interrupted := True\<rparr>]"
proof -
  let ?req = "example_request ''conv_1'' USER"
  let ?res = "sendMessage example_env
                (example_openai (example_run completed None) (example_run completed None)
                   two_replies)
                (example_db False) (Some ?req)"
  have sel: "selectConversation (example_db False) (conversation_id ?req) =
               Some (False, Some ''asst_1'', ''cont_1'')"
    by (simp add: selectConversation_def example_defs)
  have gate: "False \<or> creator ?req = USER" by (simp add: example_request_def)
  have res: "?res = (fst ?res, fst (snd ?res), snd (snd ?res))" by simp
  note th = escalation_gate[OF sel gate res]
  from th have c: "snd (snd ?res) = []" by blast
  from th have d: "fst (snd ?res) = (example_db False)
           \<lparr>messages := messages (example_db False) @
              [\<lparr>msg_id = newMessageId example_env 0,
                msg_conversation_id = conversation_id ?req,
                msg_message = message ?req, msg_creator = creator ?req,
                msg_created_at = Date_now example_env, msg_citations = None\<rparr>],
            conversations :=
              map (\<lambda>c. if conv_id c = conversation_id ?req
                        then c\<lparr>conv_last_message_at := Finite (Date_now example_env),
                               conv_status := OPEN, conv_interrupted := True\<rparr>
                        else c)
                (conversations (example_db False))\<rparr>"
    by blast
  have m: "messages (fst (snd ?res)) =
       [\<lparr>msg_id = ''msg_'', msg_conversation_id = ''conv_1'', msg_message = ''hi'',
         msg_creator = USER, msg_created_at = 1700000000500, msg_citations = None\<rparr>]"
    unfolding d by (simp add: example_db_def example_request_def example_env_def)
  have v: "conversations (fst (snd ?res)) =
       [(example_conversation False)
          \<lparr>conv_last_message_at := Finite 1700000000500, conv_status := OPEN,
           conv_interrupted := True\<rparr>]"
    unfolding d
    by (simp add: example_db_def example_conversation_def example_request_def
          example_env_def)
  have s: "selectConversation (example_db False) ''conv_1'' =
             Some (False, Some ''asst_1'', ''cont_1'')"
    using sel by (simp add: example_request_def)
  show ?thesis by (rule conjI[OF s conjI[OF c conjI[OF m v]]])
qed

text \<open>
  C6, as the claim states it, fails: on an interrupted conversation the update also
  rewrites \<open>last_message_at\<close> and \<open>status\<close>. Here the conversation is interrupted
  and CLOSED with \<open>last_message_at = 1000\<close>; after the call it is OPEN with
  \<open>last_message_at = 1700000000500\<close>.
\<close>

theorem interrupted_frame_counterexample:
  "map conv_interrupted (conversations (example_db True)) = [True]
   \<and> map conv_status (conversations (example_db True)) = [CLOSED]
   \<and> map conv_last_message_at (conversations (example_db True)) = [Finite 1000]
   \<and> map conv_status (conversations (fst (snd (sendMessage example_env
         (example_openai (example_run completed None) (example_run completed None) two_replies)
         (example_db True) (Some (example_request ''conv_1'' CONTACT)))))) = [OPEN]
   \<and> map conv_last_message_at (conversations (fst (snd (sendMessage example_env
         (example_openai (example_run completed None) (example_run completed None) two_replies)
         (example_db True) (Some (example_request ''conv_1'' CONTACT))))))
       = [Finite 1700000000500]"
  by (simp add: handler_defs example_defs)

text \<open>
  C6, amended. On a conversation with \<open>interrupted = true\<close> (conversation ids being
  the primary key), the outbound sequence is empty, no call is made to the assistant,
  the inbound message is appended to the messages, and of the conversation record only
  \<open>last_message_at\<close> (set to the inbound timestamp) and \<open>status\<close> (set to OPEN)
  change: \<open>interrupted\<close> stays true, every other field and every other row is as
  before.
\<close>

theorem interrupted_frame:
  assumes sel: "selectConversation db (conversation_id req) =
                  Some (True, assistant_id, contact_id)"
      and pk: "distinct (map conv_id (conversations db))"
      and res: "sendMessage env openai db (Some req) = (response, db', calls)"
  shows "outbound response = [] \<and> calls = []
       \<and> messages db' = messages db @ [inboundMessage env req]
       \<and> conversations db' =
           map (\<lambda>c. if conv_id c = conversation_id req
                     then c\<lparr>conv_last_message_at := Finite (Date_now env), conv_status := OPEN\<rparr>
                     else c)
             (conversations db)
       \<and> contacts db' = contacts db \<and> organisations db' = organisations db"
proof -
  have gate: "True \<or> creator req = USER" by simp
  from gate_result[OF sel gate, of env openai] res
  have r: "response = \<lparr>status = 200, jsonBody = None\<rparr>"
    and d: "db' = saveMessageToDatabase db (inboundMessage env req) None True"
    and c: "calls = []"
    by simp_all
  from selectConversation_row[OF sel] obtain c0
    where c0: "c0 \<in> set (conversations db)" "conv_id c0 = conversation_id req"
      "conv_interrupted c0"
    by blast
  have uniq: "c = c0" if "c \<in> set (conversations db)" "conv_id c = conversation_id req" for c
    using pk that c0 by (metis distinct_map inj_onD)
  have "updateConversation (conversation_id req) (Finite (Date_now env)) True c =
          (if conv_id c = conversation_id req
           then c\<lparr>conv_last_message_at := Finite (Date_now env), conv_status := OPEN\<rparr>
           else c)"
    if "c \<in> set (conversations db)" for c
    using uniq[OF that] c0(3) by (auto simp: updateConversation_def)
  then have cs: "conversations db' =
           map (\<lambda>c. if conv_id c = conversation_id req
                     then c\<lparr>conv_last_message_at := Finite (Date_now env), conv_status := OPEN\<rparr>
                     else c)
             (conversations db)"
    unfolding d gate_conversations by (intro map_cong refl)
  have rest: "messages db' = messages db @ [inboundMessage env req]"
    "contacts db' = contacts db" "organisations db' = organisations db"
    by (simp_all add: d saveMessageToDatabase_def)
  show ?thesis using r c cs rest by (simp add: outbound_def)
qed

theorem interrupted_frame_witness:
  "selectConversation (example_db True) ''conv_1'' = Some (True, Some ''asst_1'', ''cont_1'')
   \<and> distinct (map conv_id (conversations (example_db True)))
   \<and> conversations (fst (snd (sendMessage example_env
         (example_openai (example_run completed None) (example_run completed None) two_replies)
         (example_db True) (Some (example_request ''conv_1'' CONTACT))))) =
       [(example_conversation True)
          \<lparr>conv_last_message_at := Finite 1700000000500, conv_status := OPEN\<rparr>]"
proof -
  let ?req = "example_request ''conv_1'' CONTACT"
  let ?res = "sendMessage example_env
                (example_openai (example_run completed None) (example_run completed None)
                   two_replies)
                (example_db True) (Some ?req)"
  have sel: "selectConversation (example_db True) (conversation_id ?req) =
               Some (True, Some ''asst_1'', ''cont_1'')"
    by (simp add: selectConversation_def example_defs)
  have pk: "distinct (map conv_id (conversations (example_db True)))"
    by (simp add: example_db_def)
  have res: "?res = (fst ?res, fst (snd ?res), snd (snd ?res))" by simp
  from interrupted_frame[OF sel pk res]
  have "conversations (fst (snd ?res)) =
          map (\<lambda>c. if conv_id c = conversation_id ?req
                    then c\<lparr>conv_last_message_at := Finite (Date_now example_env),
                           conv_status := OPEN\<rparr>
                    else c)
            (conversations (example_db True))"
    by blast
  then have "conversations (fst (snd ?res)) =
       [(example_conversation True)
          \<lparr>conv_last_message_at := Finite 1700000000500, conv_status := OPEN\<rparr>]"
    by (simp add: example_db_def example_conversation_def example_request_def
          example_env_def)
  with sel pk show ?thesis by (simp add: example_request_def)
qed

section \<open>A conversation that does not exist\<close>

text \<open>
  C7, as the claim states it, fails: for a conversation id that no row carries the
  handler answers 500, which is not a 4xx status.
\<close>

theorem not_found_counterexample:
  "''conv_9'' \<notin> set (map conv_id (conversations (example_db False)))
   \<and> status (fst (sendMessage example_env
         (example_openai (example_run completed None) (example_run completed None) two_replies)
         (example_db False) (Some (example_request ''conv_9'' CONTACT)))) = 500
   \<and> \<not> (400 \<le> status (fst (sendMessage example_env
         (example_openai (example_run completed None) (example_run completed None) two_replies)
         (example_db False) (Some (example_request ''conv_9'' CONTACT))))
        \<and> status (fst (sendMessage example_env
         (example_openai (example_run completed None) (example_run completed None) two_replies)
         (example_db False) (Some (example_request ''conv_9'' CONTACT)))) < 500)"
  by (simp add: handler_defs example_defs)

text \<open>
  C7, amended. If no conversation row carries the requested id, \<open>sendMessage\<close>
  answers with status 500 and the generic error body, makes no call to the assistant
  and leaves the database as it was.
\<close>

theorem not_found_is_500:
  assumes "\<forall>c\<in>set (conversations db). conv_id c \<noteq> conversation_id req"
  shows "sendMessage env openai db (Some req) =
           (\<lparr>status = 500, jsonBody = Some (Inl ''Failed to send message'')\<rparr>, db, [])"
  using selectConversation_absent[OF assms]
  by (simp add: sendMessage_def failedToSend_def)

theorem not_found_is_500_witness:
  "''conv_9'' \<notin> set (map conv_id (conversations (example_db False)))
   \<and> sendMessage example_env
         (example_openai (example_run completed None) (example_run completed None) two_replies)
         (example_db False) (Some (example_request ''conv_9'' CONTACT)) =
       (\<lparr>status = 500, jsonBody = Some (Inl ''Failed to send message'')\<rparr>,
        example_db False, [])"
proof -
  have h: "\<forall>c\<in>set (conversations (example_db False)).
             conv_id c \<noteq> conversation_id (example_request ''conv_9'' CONTACT)"
    by (simp add: example_db_def example_conversation_def example_request_def)
  have "''conv_9'' \<notin> set (map conv_id (conversations (example_db False)))"
    by (simp add: example_db_def example_conversation_def)
  with not_found_is_500[OF h] show ?thesis
    by (simp add: example_request_def)
qed

section \<open>The tool-call round\<close>

lemma property_not_null:
  "d \<noteq> JNull \<Longrightarrow> \<exists>v. property d k = Some v"
  by (cases d) simp_all

lemma saveContactDetails_output:
  \<open>fst (saveContactDetails env db contact_id data) =
     (case JSON_parse env data of
        None \<Rightarrow> ''Can't parse details''
      | Some d \<Rightarrow>
          if d = JNull
             \<or> (property d ''name'' = Some None \<and> property d ''email'' = Some None
                  \<and> property d ''phone'' = Some None)
          then ''Can't parse details'' else JSON_stringify env d)\<close>
proof (cases "JSON_parse env data")
  case None
  then show ?thesis by (simp add: saveContactDetails_def)
next
  case (Some d)
  show ?thesis
  proof (cases "d = JNull")
    case True
    with Some show ?thesis by (simp add: saveContactDetails_def)
  next
    case False
    from property_not_null[OF False] obtain a b c
      where "property d ''name'' = Some a" "property d ''email'' = Some b"
        "property d ''phone'' = Some c"
      by blast
    with Some False show ?thesis by (auto simp: saveContactDetails_def)
  qed
qed

lemma saveContactDetails_frame:
  "messages (snd (saveContactDetails env db contact_id data)) = messages db
   \<and> conversations (snd (saveContactDetails env db contact_id data)) = conversations db
   \<and> organisations (snd (saveContactDetails env db contact_id data)) = organisations db"
  by (simp add: saveContactDetails_def split: option.splits prod.splits if_splits)

lemma toolOutput_id:
  "tool_call_id (fst (toolOutput env contact_id db tc)) = tc_id tc"
  by (simp add: toolOutput_def split: prod.splits)

lemma toolOutput_output:
  \<open>tool_output (fst (toolOutput env contact_id db tc)) =
     (if tc_name tc = ''save_contact_details''
      then fst (saveContactDetails env db contact_id (tc_arguments tc))
      else ''{ "success": "true" }'')\<close>
  by (simp add: toolOutput_def split: prod.splits)

lemma toolOutput_frame:
  "messages (snd (toolOutput env contact_id db tc)) = messages db
   \<and> conversations (snd (toolOutput env contact_id db tc)) = conversations db
   \<and> organisations (snd (toolOutput env contact_id db tc)) = organisations db"
  using saveContactDetails_frame[of env db contact_id "tc_arguments tc"]
  by (auto simp: toolOutput_def split: prod.splits)

lemma toolOutputs_Cons:
  "toolOutputs env contact_id db (tc # tcs) =
     (fst (toolOutput env contact_id db tc)
        # fst (toolOutputs env contact_id (snd (toolOutput env contact_id db tc)) tcs),
      snd (toolOutputs env contact_id (snd (toolOutput env contact_id db tc)) tcs))"
  by (simp split: prod.splits)

lemma toolOutputs_length:
  "length (fst (toolOutputs env contact_id db tcs)) = length tcs"
  by (induction tcs arbitrary: db) (simp_all only: toolOutputs.simps(1) toolOutputs_Cons fst_conv list.size)

lemma toolOutputs_ids:
  "map tool_call_id (fst (toolOutputs env contact_id db tcs)) = map tc_id tcs"
  by (induction tcs arbitrary: db)
     (simp_all only: toolOutputs.simps(1) toolOutputs_Cons fst_conv list.map toolOutput_id)

lemma toolOutputs_frame:
  "messages (snd (toolOutputs env contact_id db tcs)) = messages db
   \<and> conversations (snd (toolOutputs env contact_id db tcs)) = conversations db
   \<and> organisations (snd (toolOutputs env contact_id db tcs)) = organisations db"
proof (induction tcs arbitrary: db)
  case Nil
  show ?case by simp
next
  case (Cons tc tcs)
  show ?case
    unfolding toolOutputs_Cons snd_conv
    using Cons[of "snd (toolOutput env contact_id db tc)"]
      toolOutput_frame[of env contact_id db tc]
    by simp
qed

text \<open>The output computed for the \<open>i\<close>-th tool call depends on the call alone.\<close>

lemma toolOutputs_nth:
  \<open>i < length tcs \<Longrightarrow>
   tool_output (fst (toolOutputs env contact_id db tcs) ! i) =
     (if tc_name (tcs ! i) = ''save_contact_details''
      then (case JSON_parse env (tc_arguments (tcs ! i)) of
              None \<Rightarrow> ''Can't parse details''
            | Some d \<Rightarrow>
                if d = JNull
                   \<or> (property d ''name'' = Some None \<and> property d ''email'' = Some None
                        \<and> property d ''phone'' = Some None)
                then ''Can't parse details'' else JSON_stringify env d)
      else ''{ "success": "true" }'')\<close>
proof (induction tcs arbitrary: db i)
  case Nil
  then show ?case by simp
next
  case (Cons tc tcs)
  show ?case
  proof (cases i)
    case 0
    show ?thesis
      unfolding 0 toolOutputs_Cons fst_conv nth_Cons_0 toolOutput_output
        saveContactDetails_output
      by (rule refl)
  next
    case (Suc j)
    with Cons.prems have "j < length tcs" by simp
    from Cons.IH[OF this, of "snd (toolOutput env contact_id db tc)"]
    show ?thesis
      unfolding Suc toolOutputs_Cons fst_conv nth_Cons_Suc .
  qed
qed

lemma resolveRequiredAction_frame:
  assumes "resolveRequiredAction env openai db thread_id contact_id run = (r, db1, c)"
  shows "messages db1 = messages db \<and> conversations db1 = conversations db
       \<and> organisations db1 = organisations db"
proof (cases "run_status run = requires_action")
  case False
  with assms show ?thesis by (simp add: resolveRequiredAction_def)
next
  case True
  show ?thesis
  proof (cases "run_tool_calls run")
    case None
    with True assms show ?thesis by (simp add: resolveRequiredAction_def)
  next
    case (Some tcs)
    with True assms have "db1 = snd (toolOutputs env contact_id db tcs)"
      by (simp add: resolveRequiredAction_def split: prod.splits)
    then show ?thesis using toolOutputs_frame[of env contact_id db tcs] by simp
  qed
qed

lemma runAssistant_frame:
  assumes "runAssistant env openai db req assistant_id contact_id = (r, db1, c)"
  shows "messages db1 = messages db \<and> conversations db1 = conversations db
       \<and> organisations db1 = organisations db"
proof -
  let ?t = "replace (conversation_id req) ''conv_'' ''thread_''"
  show ?thesis
  proof (cases "messages_create openai ?t (message req)")
    case False
    with assms show ?thesis by (simp add: runAssistant_def Let_def)
  next
    case True
    show ?thesis
    proof (cases "createAndPoll openai ?t assistant_id")
      case None
      with True assms show ?thesis by (simp add: runAssistant_def Let_def)
    next
      case (Some run)
      obtain r' d' c' where
        rr: "resolveRequiredAction env openai db ?t contact_id run = (r', d', c')"
        by (cases "resolveRequiredAction env openai db ?t contact_id run") auto
      with True Some assms have "db1 = d'" by (simp add: runAssistant_def Let_def)
      with resolveRequiredAction_frame[OF rr] show ?thesis by simp
    qed
  qed
qed

lemma runAssistant_no_tools:
  assumes "runAssistant env openai db req assistant_id contact_id = (r, db1, c)"
      and "createAndPoll openai (replace (conversation_id req) ''conv_'' ''thread_'')
             assistant_id = Some run0"
      and "run_status run0 \<noteq> requires_action"
  shows "db1 = db"
  using assms
  by (simp add: runAssistant_def resolveRequiredAction_def Let_def split: if_splits)

lemma ask_result:
  assumes "selectConversation db (conversation_id req) = Some (False, assistant_id, contact_id)"
      and "creator req \<noteq> USER"
  shows "sendMessage env openai db (Some req) =
           askAssistant env openai db req (inboundMessage env req) assistant_id contact_id"
  using assms by (simp add: sendMessage_def)

text \<open>
  C5. When the first run requires action, \<open>sendMessage\<close> resubmits once, with exactly
  one output per tool call of the run, in the order of the calls and under their ids.
  The output of a call to any tool but \<^verbatim>\<open>save_contact_details\<close> is the generic
  acknowledgement. That of \<^verbatim>\<open>save_contact_details\<close> is the failure string when its
  arguments do not parse (nothing is thrown: the resubmission is still made), and
  also when they parse to \<^verbatim>\<open>null\<close> or to a value with none of the members
  \<^verbatim>\<open>name\<close>, \<^verbatim>\<open>email\<close>, \<^verbatim>\<open>phone\<close>, for which the update throws; on success,
  when they parse to a value with at least one of the three members, it is the parsed
  payload written back as JSON.
\<close>

theorem tool_outputs_one_per_call:
  assumes sel: \<open>selectConversation db (conversation_id req) =
                  Some (False, assistant_id, contact_id)\<close>
      and cr: \<open>creator req \<noteq> USER\<close>
      and mc: \<open>messages_create openai
                 (replace (conversation_id req) ''conv_'' ''thread_'') (message req)\<close>
      and cp: \<open>createAndPoll openai
                 (replace (conversation_id req) ''conv_'' ''thread_'') assistant_id = Some run\<close>
      and st: \<open>run_status run = requires_action\<close>
      and tc: \<open>run_tool_calls run = Some tcs\<close>
      and res: \<open>sendMessage env openai db (Some req) = (response, db', calls)\<close>
  shows \<open>\<exists>outs rest.
           calls =
             [MessagesCreate (replace (conversation_id req) ''conv_'' ''thread_'') (message req),
              CreateAndPoll (replace (conversation_id req) ''conv_'' ''thread_'') assistant_id,
              SubmitToolOutputs (replace (conversation_id req) ''conv_'' ''thread_'')
                (run_id run) outs] @ rest
         \<and> (\<forall>c\<in>set rest. \<exists>t l. c = MessagesList t l)
         \<and> map tool_call_id outs = map tc_id tcs
         \<and> (\<forall>i<length tcs.
               (tc_name (tcs ! i) \<noteq> ''save_contact_details''
                  \<longrightarrow> tool_output (outs ! i) = ''{ "success": "true" }'')
             \<and> (tc_name (tcs ! i) = ''save_contact_details''
                  \<and> JSON_parse env (tc_arguments (tcs ! i)) = None
                  \<longrightarrow> tool_output (outs ! i) = ''Can't parse details'')
             \<and> (\<forall>d. tc_name (tcs ! i) = ''save_contact_details''
                  \<and> JSON_parse env (tc_arguments (tcs ! i)) = Some d
                  \<and> (d = JNull
                      \<or> (property d ''name'' = Some None \<and> property d ''email'' = Some None
                           \<and> property d ''phone'' = Some None))
                  \<longrightarrow> tool_output (outs ! i) = ''Can't parse details'')
             \<and> (\<forall>d. tc_name (tcs ! i) = ''save_contact_details''
                  \<and> JSON_parse env (tc_arguments (tcs ! i)) = Some d \<and> d \<noteq> JNull
                  \<and> (property d ''name'' \<noteq> Some None \<or> property d ''email'' \<noteq> Some None
                      \<or> property d ''phone'' \<noteq> Some None)
                  \<longrightarrow> tool_output (outs ! i) = JSON_stringify env d))\<close>
proof -
  let ?t = "replace (conversation_id req) ''conv_'' ''thread_''"
  let ?outs = "fst (toolOutputs env contact_id db tcs)"
  let ?base = "[MessagesCreate ?t (message req), CreateAndPoll ?t assistant_id,
                SubmitToolOutputs ?t (run_id run) ?outs]"
  have ra: "runAssistant env openai db req assistant_id contact_id =
              (submitToolOutputsAndPoll openai ?t (run_id run) ?outs,
               snd (toolOutputs env contact_id db tcs), ?base)"
    using mc cp st tc
    by (simp add: runAssistant_def resolveRequiredAction_def Let_def split: prod.splits)
  have "calls = ?base @ [] \<or> (\<exists>t. calls = ?base @ [MessagesList t None])"
    using res unfolding ask_result[OF sel cr] askAssistant_def ra
    by (auto split: option.splits if_splits)
  then obtain rest where c: "calls = ?base @ rest"
    and r: "\<forall>c\<in>set rest. \<exists>t l. c = MessagesList t l"
    by auto
  have ids: "map tool_call_id ?outs = map tc_id tcs" by (rule toolOutputs_ids)
  have each: \<open>(tc_name (tcs ! i) \<noteq> ''save_contact_details''
                  \<longrightarrow> tool_output (?outs ! i) = ''{ "success": "true" }'')
             \<and> (tc_name (tcs ! i) = ''save_contact_details''
                  \<and> JSON_parse env (tc_arguments (tcs ! i)) = None
                  \<longrightarrow> tool_output (?outs ! i) = ''Can't parse details'')
             \<and> (\<forall>d. tc_name (tcs ! i) = ''save_contact_details''
                  \<and> JSON_parse env (tc_arguments (tcs ! i)) = Some d
                  \<and> (d = JNull
                      \<or> (property d ''name'' = Some None \<and> property d ''email'' = Some None
                           \<and> property d ''phone'' = Some None))
                  \<longrightarrow> tool_output (?outs ! i) = ''Can't parse details'')
             \<and> (\<forall>d. tc_name (tcs ! i) = ''save_contact_details''
                  \<and> JSON_parse env (tc_arguments (tcs ! i)) = Some d \<and> d \<noteq> JNull
                  \<and> (property d ''name'' \<noteq> Some None \<or> property d ''email'' \<noteq> Some None
                      \<or> property d ''phone'' \<noteq> Some None)
                  \<longrightarrow> tool_output (?outs ! i) = JSON_stringify env d)\<close>
    if "i < length tcs" for i
    unfolding toolOutputs_nth[OF that] by auto
  from c r ids each show ?thesis by blast
qed

theorem tool_outputs_one_per_call_witness:
  \<open>map tool_call_id
     (fst (toolOutputs example_env ''cont_1'' (example_db False) example_tool_calls_empty)) =
     [''call_1'', ''call_2'', ''call_3'', ''call_4'']
   \<and> map tool_output
     (fst (toolOutputs example_env ''cont_1'' (example_db False) example_tool_calls_empty)) =
     [''{"email":"a@b.com"}'', ''Can't parse details'', ''{ "success": "true" }'',
      ''Can't parse details'']
   \<and> (\<exists>outs rest.
         snd (snd (sendMessage example_env
           (example_openai (example_run requires_action (Some example_tool_calls_empty))
              (example_run completed None) two_replies)
           (example_db False) (Some (example_request ''conv_1'' CONTACT)))) =
         [MessagesCreate ''thread_1'' ''hi'', CreateAndPoll ''thread_1'' (Some ''asst_1''),
          SubmitToolOutputs ''thread_1'' ''run_1'' outs] @ rest
         \<and> map tool_call_id outs = [''call_1'', ''call_2'', ''call_3'', ''call_4''])\<close>
proof -
  let ?req = "example_request ''conv_1'' CONTACT"
  let ?ai = "example_openai (example_run requires_action (Some example_tool_calls_empty))
               (example_run completed None) two_replies"
  let ?run = "example_run requires_action (Some example_tool_calls_empty)"
  let ?res = "sendMessage example_env ?ai (example_db False) (Some ?req)"
  have t: "replace (conversation_id ?req) ''conv_'' ''thread_'' = ''thread_1''"
    by (simp add: example_request_def)
  have sel: "selectConversation (example_db False) (conversation_id ?req) =
               Some (False, Some ''asst_1'', ''cont_1'')"
    by (simp add: selectConversation_def example_defs)
  have cr: "creator ?req \<noteq> USER" by (simp add: example_request_def)
  have mc: "messages_create ?ai (replace (conversation_id ?req) ''conv_'' ''thread_'')
              (message ?req)"
    by (simp add: example_openai_def)
  have cp: "createAndPoll ?ai (replace (conversation_id ?req) ''conv_'' ''thread_'')
              (Some ''asst_1'') = Some ?run"
    by (simp add: example_openai_def)
  have st: "run_status ?run = requires_action" by (simp add: example_run_def)
  have tc: "run_tool_calls ?run = Some example_tool_calls_empty" by (simp add: example_run_def)
  have res: "?res = (fst ?res, fst (snd ?res), snd (snd ?res))" by simp
  from tool_outputs_one_per_call[OF sel cr mc cp st tc res]
  obtain outs rest where
    c: "snd (snd ?res) =
          [MessagesCreate (replace (conversation_id ?req) ''conv_'' ''thread_'') (message ?req),
           CreateAndPoll (replace (conversation_id ?req) ''conv_'' ''thread_'') (Some ''asst_1''),
           SubmitToolOutputs (replace (conversation_id ?req) ''conv_'' ''thread_'')
             (run_id ?run) outs] @ rest"
    and ids: "map tool_call_id outs = map tc_id example_tool_calls_empty"
    by blast
  have c': "snd (snd ?res) =
          [MessagesCreate ''thread_1'' ''hi'', CreateAndPoll ''thread_1'' (Some ''asst_1''),
           SubmitToolOutputs ''thread_1'' ''run_1'' outs] @ rest"
    using c unfolding t by (simp add: example_request_def example_run_def)
  have ids': "map tool_call_id outs = [''call_1'', ''call_2'', ''call_3'', ''call_4'']"
    using ids by (simp add: example_tool_calls_empty_def example_tool_calls_def)
  have a: "map tool_call_id
     (fst (toolOutputs example_env ''cont_1'' (example_db False) example_tool_calls_empty)) =
     [''call_1'', ''call_2'', ''call_3'', ''call_4'']"
    unfolding toolOutputs_ids by (simp add: example_tool_calls_empty_def example_tool_calls_def)
  have b: \<open>map tool_output
     (fst (toolOutputs example_env ''cont_1'' (example_db False) example_tool_calls_empty)) =
     [''{"email":"a@b.com"}'', ''Can't parse details'', ''{ "success": "true" }'',
      ''Can't parse details'']\<close>
    by code_simp
  have e: "\<exists>outs rest.
         snd (snd ?res) =
         [MessagesCreate ''thread_1'' ''hi'', CreateAndPoll ''thread_1'' (Some ''asst_1''),
          SubmitToolOutputs ''thread_1'' ''run_1'' outs] @ rest
         \<and> map tool_call_id outs = [''call_1'', ''call_2'', ''call_3'', ''call_4'']"
    by (rule exI[of _ outs], rule exI[of _ rest], rule conjI[OF c' ids'])
  show ?thesis by (rule conjI[OF a conjI[OF b e]])
qed

section \<open>A run that does not complete\<close>

text \<open>
  C3, as the claim states it, fails in its last part: the persisted state is not
  always unchanged on this error. Here the first run requires action with a
  \<^verbatim>\<open>save_contact_details\<close> call, whose payload is written to the contact, and the
  resubmitted run ends \<open>failed\<close>: the answer is 500, no message is stored, and the
  contact's email has changed.
\<close>

theorem assistant_failure_counterexample:
  "fst (sendMessage example_env
          (example_openai (example_run requires_action (Some example_tool_calls))
             (example_run failed None) two_replies)
          (example_db False) (Some (example_request ''conv_1'' CONTACT))) =
     \<lparr>status = 500, jsonBody = Some (Inl ''Failed to send message'')\<rparr>
   \<and> messages (fst (snd (sendMessage example_env
          (example_openai (example_run requires_action (Some example_tool_calls))
             (example_run failed None) two_replies)
          (example_db False) (Some (example_request ''conv_1'' CONTACT))))) = []
   \<and> map cont_email (contacts (example_db False)) = [None]
   \<and> map cont_email (contacts (fst (snd (sendMessage example_env
          (example_openai (example_run requires_action (Some example_tool_calls))
             (example_run failed None) two_replies)
          (example_db False) (Some (example_request ''conv_1'' CONTACT)))))) =
       [Some (JStr ''a@b.com'')]
   \<and> fst (snd (sendMessage example_env
          (example_openai (example_run requires_action (Some example_tool_calls))
             (example_run failed None) two_replies)
          (example_db False) (Some (example_request ''conv_1'' CONTACT)))) \<noteq> example_db False"
proof -
  let ?res = "sendMessage example_env
          (example_openai (example_run requires_action (Some example_tool_calls))
             (example_run failed None) two_replies)
          (example_db False) (Some (example_request ''conv_1'' CONTACT))"
  have a: "fst ?res = \<lparr>status = 500, jsonBody = Some (Inl ''Failed to send message'')\<rparr>"
    by code_simp
  have b: "messages (fst (snd ?res)) = []" by code_simp
  have c: "map cont_email (contacts (example_db False)) = [None]" by code_simp
  have d: "map cont_email (contacts (fst (snd ?res))) = [Some (JStr ''a@b.com'')]"
    by code_simp
  from c d have e: "fst (snd ?res) \<noteq> example_db False" by auto
  show ?thesis by (rule conjI[OF a conjI[OF b conjI[OF c conjI[OF d e]]]])
qed

text \<open>
  C3, amended. If the run the handler ends up with (after the one round of tool calls,
  if any) is in a state other than \<open>completed\<close>, \<open>sendMessage\<close> answers with status
  500 and the generic error body and persists neither the inbound message nor any
  outbound message: messages, conversations and organisations are as before. The
  contacts may have been written by \<^verbatim>\<open>save_contact_details\<close> calls resolved before the
  failure; when the first run did not require action the whole database is unchanged.
\<close>

theorem assistant_failure_persists_no_message:
  assumes sel: "selectConversation db (conversation_id req) =
                  Some (False, assistant_id, contact_id)"
      and cr: "creator req \<noteq> USER"
      and run: "runAssistant env openai db req assistant_id contact_id =
                  (Some run, db1, calls1)"
      and nc: "run_status run \<noteq> completed"
      and res: "sendMessage env openai db (Some req) = (response, db', calls)"
  shows "response = \<lparr>status = 500, jsonBody = Some (Inl ''Failed to send message'')\<rparr>
       \<and> calls = calls1
       \<and> messages db' = messages db \<and> conversations db' = conversations db
       \<and> organisations db' = organisations db
       \<and> (\<forall>run0. createAndPoll openai
                     (replace (conversation_id req) ''conv_'' ''thread_'') assistant_id
                   = Some run0 \<and> run_status run0 \<noteq> requires_action
                  \<longrightarrow> db' = db)"
proof -
  from res have "(response, db', calls) = (failedToSend, db1, calls1)"
    unfolding ask_result[OF sel cr] askAssistant_def run using nc by simp
  then have r: "response = failedToSend" and d: "db' = db1" and c: "calls = calls1"
    by simp_all
  from runAssistant_frame[OF run] d
  have f: "messages db' = messages db" "conversations db' = conversations db"
    "organisations db' = organisations db"
    by simp_all
  have "db' = db"
    if "createAndPoll openai (replace (conversation_id req) ''conv_'' ''thread_'')
          assistant_id = Some run0" "run_status run0 \<noteq> requires_action" for run0
    using runAssistant_no_tools[OF run that] d by simp
  with r c f show ?thesis by (simp add: failedToSend_def)
qed

theorem assistant_failure_persists_no_message_witness:
  "run_status (example_run failed None) \<noteq> completed
   \<and> fst (sendMessage example_env
          (example_openai (example_run requires_action (Some example_tool_calls))
             (example_run failed None) two_replies)
          (example_db False) (Some (example_request ''conv_1'' CONTACT))) =
       \<lparr>status = 500, jsonBody = Some (Inl ''Failed to send message'')\<rparr>
   \<and> messages (fst (snd (sendMessage example_env
          (example_openai (example_run requires_action (Some example_tool_calls))
             (example_run failed None) two_replies)
          (example_db False) (Some (example_request ''conv_1'' CONTACT))))) =
       messages (example_db False)
   \<and> fst (snd (sendMessage example_env
          (example_openai (example_run failed None) (example_run failed None) two_replies)
          (example_db False) (Some (example_request ''conv_1'' CONTACT)))) = example_db False"
proof -
  let ?req = "example_request ''conv_1'' CONTACT"
  let ?ai = "example_openai (example_run requires_action (Some example_tool_calls))
               (example_run failed None) two_replies"
  let ?ai2 = "example_openai (example_run failed None) (example_run failed None) two_replies"
  let ?res = "sendMessage example_env ?ai (example_db False) (Some ?req)"
  let ?res2 = "sendMessage example_env ?ai2 (example_db False) (Some ?req)"
  let ?ra = "runAssistant example_env ?ai (example_db False) ?req (Some ''asst_1'') ''cont_1''"
  let ?ra2 = "runAssistant example_env ?ai2 (example_db False) ?req (Some ''asst_1'') ''cont_1''"
  have sel: "selectConversation (example_db False) (conversation_id ?req) =
               Some (False, Some ''asst_1'', ''cont_1'')"
    by (simp add: selectConversation_def example_defs)
  have cr: "creator ?req \<noteq> USER" by (simp add: example_request_def)
  have nc: "run_status (example_run failed None) \<noteq> completed"
    by (simp add: example_run_def)
  have f1: "fst ?ra = Some (example_run failed None)" by code_simp
  have run: "?ra = (Some (example_run failed None), fst (snd ?ra), snd (snd ?ra))"
    using f1 by (metis prod.collapse)
  have res: "?res = (fst ?res, fst (snd ?res), snd (snd ?res))" by simp
  note th1 = assistant_failure_persists_no_message[OF sel cr run nc res]
  have f2: "fst ?ra2 = Some (example_run failed None)" by code_simp
  have run2: "?ra2 = (Some (example_run failed None), fst (snd ?ra2), snd (snd ?ra2))"
    using f2 by (metis prod.collapse)
  have res2: "?res2 = (fst ?res2, fst (snd ?res2), snd (snd ?res2))" by simp
  note th2 = assistant_failure_persists_no_message[OF sel cr run2 nc res2]
  have cp: "createAndPoll ?ai2 (replace (conversation_id ?req) ''conv_'' ''thread_'')
              (Some ''asst_1'') = Some (example_run failed None)
            \<and> run_status (example_run failed None) \<noteq> requires_action"
    by (simp add: example_openai_def example_run_def)
  from th2 cp have u: "fst (snd ?res2) = example_db False" by blast
  from th1 have a: "fst ?res = \<lparr>status = 500, jsonBody = Some (Inl ''Failed to send message'')\<rparr>"
    and b: "messages (fst (snd ?res)) = messages (example_db False)"
    by blast+
  show ?thesis by (rule conjI[OF nc conjI[OF a conjI[OF b u]]])
qed

section \<open>Timestamps of the outbound messages\<close>

text \<open>
  The Slack handlers restamp the responses after the inbound message by their index:
  the \<open>i\<close>-th response gets the inbound timestamp plus \<open>i + 1\<close>.
\<close>

lemma restamp_created_at:
  "map msg_created_at (restamp cid t rs) = map (\<lambda>i. t + int i + 1) [0..<length rs]"
proof -
  have "map msg_created_at (restamp cid t rs) =
          map ((\<lambda>i. t + int i + 1) \<circ> fst) (enumerate 0 rs)"
    by (simp add: restamp_def case_prod_unfold comp_def)
  also have "\<dots> = map (\<lambda>i. t + int i + 1) (map fst (enumerate 0 rs))"
    by (simp only: map_map)
  also have "map fst (enumerate 0 rs) = [0..<length rs]"
    by (simp add: map_fst_enumerate)
  finally show ?thesis .
qed

text \<open>
  C2 at a failing input. The conversation is not interrupted, the creator is CONTACT,
  the clock reads 1700000000500 and the run completes with a reply of two messages,
  listed most recent first and created at the seconds 1700000003 and 1700000002.
  \<open>sendMessage\<close> stamps the outbound messages with the provider's seconds times
  1000: 1700000003000 and then 1700000002000, neither the inbound timestamp plus
  \<open>1 + i\<close> nor increasing.
\<close>

theorem outbound_timestamps_from_provider:
  "msg_created_at (inboundMessage example_env (example_request ''conv_1'' CONTACT)) =
     1700000000500
   \<and> status (fst (sendMessage example_env
        (example_openai (example_run completed None) (example_run completed None) two_replies)
        (example_db False) (Some (example_request ''conv_1'' CONTACT)))) = 200
   \<and> map msg_created_at (outbound (fst (sendMessage example_env
        (example_openai (example_run completed None) (example_run completed None) two_replies)
        (example_db False) (Some (example_request ''conv_1'' CONTACT))))) =
       [1700000003000, 1700000002000]"
proof -
  let ?res = "sendMessage example_env
        (example_openai (example_run completed None) (example_run completed None) two_replies)
        (example_db False) (Some (example_request ''conv_1'' CONTACT))"
  have a: "msg_created_at (inboundMessage example_env (example_request ''conv_1'' CONTACT)) =
     1700000000500"
    by (simp add: inboundMessage_def example_env_def)
  have b: "status (fst ?res) = 200" by code_simp
  have c: "map msg_created_at (outbound (fst ?res)) = [1700000003000, 1700000002000]"
    by code_simp
  show ?thesis by (rule conjI[OF a conjI[OF b c]])
qed

section \<open>The conversation after a successful exchange\<close>

text \<open>
  C4 at a failing input. The run completes and the reply selected from the thread is
  one message whose first block is an image, which the loop skips: the batch is the
  inbound message alone. \<open>sendMessage\<close> answers 200 with an empty list, stores the
  inbound message stamped 1700000000500, and sets \<open>last_message_at\<close> to the maximum
  over no outbound timestamp, \<^verbatim>\<open>-Infinity\<close>, not to the maximum of the batch.
\<close>

theorem last_message_at_of_empty_reply:
  "status (fst (sendMessage example_env
        (example_openai (example_run completed None) (example_run completed None) image_reply)
        (example_db False) (Some (example_request ''conv_1'' CONTACT)))) = 200
   \<and> outbound (fst (sendMessage example_env
        (example_openai (example_run completed None) (example_run completed None) image_reply)
        (example_db False) (Some (example_request ''conv_1'' CONTACT)))) = []
   \<and> map msg_created_at (messages (fst (snd (sendMessage example_env
        (example_openai (example_run completed None) (example_run completed None) image_reply)
        (example_db False) (Some (example_request ''conv_1'' CONTACT)))))) = [1700000000500]
   \<and> map conv_last_message_at (conversations (fst (snd (sendMessage example_env
        (example_openai (example_run completed None) (example_run completed None) image_reply)
        (example_db False) (Some (example_request ''conv_1'' CONTACT)))))) = [NegInfinity]
   \<and> map conv_status (conversations (fst (snd (sendMessage example_env
        (example_openai (example_run completed None) (example_run completed None) image_reply)
        (example_db False) (Some (example_request ''conv_1'' CONTACT)))))) = [OPEN]"
proof -
  let ?res = "sendMessage example_env
        (example_openai (example_run completed None) (example_run completed None) image_reply)
        (example_db False) (Some (example_request ''conv_1'' CONTACT))"
  have a: "status (fst ?res) = 200" by code_simp
  have b: "outbound (fst ?res) = []" by code_simp
  have c: "map msg_created_at (messages (fst (snd ?res))) = [1700000000500]" by code_simp
  have d: "map conv_last_message_at (conversations (fst (snd ?res))) = [NegInfinity]"
    by code_simp
  have e: "map conv_status (conversations (fst (snd ?res))) = [OPEN]" by code_simp
  show ?thesis by (rule conjI[OF a conjI[OF b conjI[OF c conjI[OF d e]]]])
qed

section \<open>Stripping citation annotations\<close>

lemma replace_absent:
  "\<not> String_includes s pat \<Longrightarrow> replace s pat rep = s"
  by (induction s) auto

lemma stripAnnotations_absent:
  "(\<forall>a\<in>set anns. \<not> String_includes t (ann_text a)) \<Longrightarrow> stripAnnotations t anns = t"
  by (induction anns) (simp_all add: stripAnnotations_def replace_absent)

lemma processOpenAIMessage_text:
  "tm_content m = TextContent v anns # rest \<Longrightarrow>
   map_option (map_option msg_message) (processOpenAIMessage env k m cid) =
     Some (Some (stripAnnotations v anns))"
  by (simp add: processOpenAIMessage_def)

text \<open>
  C8, as the claim states it, fails: an annotation removes only the first occurrence
  of its text. With the marker twice in the text and one annotation, the first pass
  removes one marker and the second pass removes the other.
\<close>

theorem strip_twice_counterexample:
  "stripAnnotations cited_twice [marker] = ''See the guide [1].''
   \<and> stripAnnotations (stripAnnotations cited_twice [marker]) [marker] = ''See the guide .''
   \<and> stripAnnotations (stripAnnotations cited_twice [marker]) [marker]
       \<noteq> stripAnnotations cited_twice [marker]"
proof -
  have a: "stripAnnotations cited_twice [marker] = ''See the guide [1].''" by code_simp
  have b: "stripAnnotations (stripAnnotations cited_twice [marker]) [marker] =
             ''See the guide .''"
    by code_simp
  have c: "stripAnnotations (stripAnnotations cited_twice [marker]) [marker]
             \<noteq> stripAnnotations cited_twice [marker]"
    unfolding b unfolding a by simp
  show ?thesis by (rule conjI[OF a conjI[OF b c]])
qed

lemma replace_at_marker:
  "p \<noteq> [] \<Longrightarrow> hd p \<notin> set u \<Longrightarrow> replace (u @ p @ v) p rep = u @ rep @ v"
proof (induction u)
  case Nil
  then show ?case by (cases p) simp_all
next
  case (Cons c u)
  from Cons.prems have "hd p \<noteq> c" by auto
  with Cons.prems(1) have "take (length p) (c # u @ p @ v) \<noteq> p"
    by (cases p) auto
  with Cons show ?case by simp
qed

lemma not_includes_without_hd:
  "p \<noteq> [] \<Longrightarrow> hd p \<notin> set s \<Longrightarrow> \<not> String_includes s p"
proof (induction s)
  case Nil
  then show ?case by simp
next
  case (Cons c s)
  from Cons.prems have "hd p \<noteq> c" by auto
  with Cons.prems(1) have "take (length p) (c # s) \<noteq> p"
    by (cases p) auto
  with Cons show ?case by simp
qed

text \<open>
  On a text made of plain segments with the annotations' texts between them, in the
  order of the annotations, where no plain segment holds the first character of an
  annotation's text, stripping leaves the plain segments.
\<close>

lemma stripAnnotations_marked:
  assumes "length anns = length segs"
      and "\<forall>a\<in>set anns. ann_text a \<noteq> [] \<and> hd (ann_text a) \<notin> set (s0 @ concat segs)"
  shows "stripAnnotations (s0 @ concat (map2 (\<lambda>a s. ann_text a @ s) anns segs)) anns =
           s0 @ concat segs"
  using assms
proof (induction anns segs arbitrary: s0 rule: list_induct2)
  case Nil
  show ?case by (simp add: stripAnnotations_def)
next
  case (Cons a anns s segs)
  let ?rest = "concat (map2 (\<lambda>a s. ann_text a @ s) anns segs)"
  from Cons.prems have p: "ann_text a \<noteq> []" and h: "hd (ann_text a) \<notin> set s0"
    by auto
  have "stripAnnotations (s0 @ concat (map2 (\<lambda>a s. ann_text a @ s) (a # anns) (s # segs)))
          (a # anns) =
        stripAnnotations (replace (s0 @ ann_text a @ (s @ ?rest)) (ann_text a) []) anns"
    by (simp add: stripAnnotations_def)
  also have "\<dots> = stripAnnotations ((s0 @ s) @ ?rest) anns"
    by (simp add: replace_at_marker[OF p h])
  also have "\<dots> = (s0 @ s) @ concat segs"
    using Cons.prems by (intro Cons.IH) auto
  finally show ?case by simp
qed

text \<open>
  C8, amended. Citation annotation stripping is idempotent on messages whose
  annotations mark their own text: when the message text consists of plain segments
  with the annotations' texts between them, in the order of the annotations, every
  annotation text is non-empty and its first character occurs in no plain segment,
  then stripping yields the plain segments, and applying the stripping transformation
  to that result again yields the same result.
\<close>

theorem strip_marked_text:
  assumes len: "length anns = length segs"
      and mk: "\<forall>a\<in>set anns. ann_text a \<noteq> [] \<and> hd (ann_text a) \<notin> set (s0 @ concat segs)"
  shows "stripAnnotations (s0 @ concat (map2 (\<lambda>a s. ann_text a @ s) anns segs)) anns =
           s0 @ concat segs
       \<and> stripAnnotations
           (stripAnnotations (s0 @ concat (map2 (\<lambda>a s. ann_text a @ s) anns segs)) anns)
           anns =
         stripAnnotations (s0 @ concat (map2 (\<lambda>a s. ann_text a @ s) anns segs)) anns"
proof -
  have once: "stripAnnotations (s0 @ concat (map2 (\<lambda>a s. ann_text a @ s) anns segs)) anns =
                s0 @ concat segs"
    by (rule stripAnnotations_marked[OF len mk])
  have "\<not> String_includes (s0 @ concat segs) (ann_text a)" if "a \<in> set anns" for a
  proof -
    from mk that have "ann_text a \<noteq> []" "hd (ann_text a) \<notin> set (s0 @ concat segs)"
      by blast+
    then show ?thesis by (rule not_includes_without_hd)
  qed
  then have "\<forall>a\<in>set anns. \<not> String_includes (s0 @ concat segs) (ann_text a)"
    by blast
  then have "stripAnnotations (s0 @ concat segs) anns = s0 @ concat segs"
    by (rule stripAnnotations_absent)
  with once show ?thesis by simp
qed

theorem strip_marked_text_witness:
  "stripAnnotations annotated_text [marker, marker] = ''See  and .''
   \<and> stripAnnotations (stripAnnotations annotated_text [marker, marker]) [marker, marker] =
       stripAnnotations annotated_text [marker, marker]"
proof -
  have len: "length [marker, marker] = length ['' and '', ''.'']" by simp
  have mk: "\<forall>a\<in>set [marker, marker].
              ann_text a \<noteq> [] \<and> hd (ann_text a) \<notin> set (''See '' @ concat ['' and '', ''.''])"
    by (simp add: marker_def)
  have t: "''See '' @ concat (map2 (\<lambda>a s. ann_text a @ s) [marker, marker] ['' and '', ''.''])
             = annotated_text"
    by (simp add: marker_def annotated_text_def)
  from strip_marked_text[OF len mk]
  have "stripAnnotations annotated_text [marker, marker] = ''See '' @ concat ['' and '', ''.'']
       \<and> stripAnnotations (stripAnnotations annotated_text [marker, marker]) [marker, marker] =
           stripAnnotations annotated_text [marker, marker]"
    unfolding t .
  then have a: "stripAnnotations annotated_text [marker, marker] =
                  ''See '' @ concat ['' and '', ''.'']"
    and b: "stripAnnotations (stripAnnotations annotated_text [marker, marker])
              [marker, marker] =
            stripAnnotations annotated_text [marker, marker]"
    by blast+
  have a': "stripAnnotations annotated_text [marker, marker] = ''See  and .''"
    unfolding a by simp
  show ?thesis by (rule conjI[OF a' b])
qed

section \<open>The reply selected from the thread\<close>

lemma findIndexFrom_none:
  "(\<forall>x\<in>set xs. \<not> p x) \<Longrightarrow> findIndexFrom i p xs = - 1"
  by (induction xs arbitrary: i) simp_all

lemma slice_to_minus_one: "slice xs 0 (- 1) = butlast xs"
  by (cases xs rule: rev_cases) (simp_all add: slice_def)

text \<open>
  C9, as the claim states it, fails: it is not the most recent assistant message that
  is left out. On a thread of three assistant messages, listed most recent first, the
  reply keeps the two most recent ones and drops the oldest.
\<close>

theorem no_user_message_counterexample:
  "map tm_role assistant_only = [assistant, assistant, assistant]
   \<and> map tm_created_at assistant_only = [1700000003, 1700000002, 1700000001]
   \<and> map tm_created_at (sinceLastUserMessage assistant_only) = [1700000003, 1700000002]
   \<and> hd assistant_only \<in> set (sinceLastUserMessage assistant_only)
   \<and> map msg_message (outbound (fst (sendMessage example_env
        (example_openai (example_run completed None) (example_run completed None)
           assistant_only)
        (example_db False) (Some (example_request ''conv_1'' CONTACT))))) =
       [''third'', ''second'']"
proof -
  have a: "map tm_role assistant_only = [assistant, assistant, assistant]
   \<and> map tm_created_at assistant_only = [1700000003, 1700000002, 1700000001]
   \<and> map tm_created_at (sinceLastUserMessage assistant_only) = [1700000003, 1700000002]
   \<and> hd assistant_only \<in> set (sinceLastUserMessage assistant_only)"
    by (simp add: assistant_only_def example_message_def sinceLastUserMessage_def
          findIndex_def slice_def)
  have b: "map msg_message (outbound (fst (sendMessage example_env
        (example_openai (example_run completed None) (example_run completed None)
           assistant_only)
        (example_db False) (Some (example_request ''conv_1'' CONTACT))))) =
       [''third'', ''second'']"
    by code_simp
  from a b show ?thesis by simp
qed

text \<open>
  The loop over a list of messages that all have a content block: it does not throw,
  and it yields one AGENT response for each message whose first block is text, in
  order, with that text and the provider's time in milliseconds.
\<close>

lemma collectResponses_texts:
  assumes "\<forall>m\<in>set ms. tm_content m \<noteq> []"
  shows "\<exists>rs. collectResponses env cid k ms = Some rs
          \<and> map (\<lambda>r. (msg_conversation_id r, msg_creator r, msg_message r, msg_created_at r)) rs =
              concat (map (\<lambda>m. case tm_content m of
                                  TextContent v anns # _ \<Rightarrow> [(cid, AGENT, v, tm_created_at m * 1000)]
                                | _ \<Rightarrow> []) ms)"
  using assms
proof (induction ms arbitrary: k)
  case Nil
  show ?case by simp
next
  case (Cons m ms)
  from Cons.prems obtain b bs where c: "tm_content m = b # bs"
    by (cases "tm_content m") auto
  from Cons.prems have rest: "\<forall>m\<in>set ms. tm_content m \<noteq> []" by simp
  show ?case
  proof (cases b)
    case (TextContent v anns)
    from Cons.IH[OF rest, of "Suc k"] obtain rs where
      "collectResponses env cid (Suc k) ms = Some rs"
      "map (\<lambda>r. (msg_conversation_id r, msg_creator r, msg_message r, msg_created_at r)) rs =
         concat (map (\<lambda>m. case tm_content m of
                             TextContent v anns # _ \<Rightarrow> [(cid, AGENT, v, tm_created_at m * 1000)]
                           | _ \<Rightarrow> []) ms)"
      by blast
    with c TextContent show ?thesis by simp
  next
    case OtherContent
    from Cons.IH[OF rest, of k] obtain rs where
      "collectResponses env cid k ms = Some rs"
      "map (\<lambda>r. (msg_conversation_id r, msg_creator r, msg_message r, msg_created_at r)) rs =
         concat (map (\<lambda>m. case tm_content m of
                             TextContent v anns # _ \<Rightarrow> [(cid, AGENT, v, tm_created_at m * 1000)]
                           | _ \<Rightarrow> []) ms)"
      by blast
    with c OtherContent show ?thesis by simp
  qed
qed

text \<open>
  C9, amended. In the assistant-reply selection, if the fetched thread message list
  (most recent first) contains no user-authored message, \<open>findIndex\<close> returns -1
  and \<open>slice(0, -1)\<close> is taken, so the last message of the list, the oldest one
  fetched, is left out of the selection and all the others, the most recent included,
  are selected. When each selected message has a content block, \<open>sendMessage\<close>
  answers 200 and the outbound sequence holds, in the order of the list, one AGENT
  message for each selected message whose first block is text, with that text and the
  provider's time in milliseconds; a selected message whose first block is not text
  is not returned.
\<close>

theorem no_user_message_drops_oldest:
  assumes sel: "selectConversation db (conversation_id req) =
                  Some (False, assistant_id, contact_id)"
      and cr: "creator req \<noteq> USER"
      and run: "runAssistant env openai db req assistant_id contact_id =
                  (Some run, db1, calls1)"
      and st: "run_status run = completed"
      and ls: "messages_list openai (run_thread_id run) None = Some data"
      and nu: "\<forall>m\<in>set data. tm_role m \<noteq> user"
      and ct: "\<forall>m\<in>set (butlast data). tm_content m \<noteq> []"
      and res: "sendMessage env openai db (Some req) = (response, db', calls)"
  shows "findIndex (\<lambda>m. tm_role m = user) data = - 1
       \<and> sinceLastUserMessage data = slice data 0 (- 1)
       \<and> sinceLastUserMessage data = butlast data
       \<and> status response = 200
       \<and> map (\<lambda>r. (msg_conversation_id r, msg_creator r, msg_message r, msg_created_at r))
           (outbound response) =
         concat (map (\<lambda>m. case tm_content m of
                             TextContent v anns # _ \<Rightarrow>
                               [(conversation_id req, AGENT, v, tm_created_at m * 1000)]
                           | _ \<Rightarrow> [])
                   (butlast data))"
proof -
  from nu have i: "findIndex (\<lambda>m. tm_role m = user) data = - 1"
    unfolding findIndex_def by (intro findIndexFrom_none) simp
  then have s: "sinceLastUserMessage data = slice data 0 (- 1)"
    by (simp add: sinceLastUserMessage_def)
  then have b: "sinceLastUserMessage data = butlast data"
    by (simp add: slice_to_minus_one)
  from collectResponses_texts[OF ct, of env "conversation_id req" "Suc 0"] obtain rs where
    rs: "collectResponses env (conversation_id req) (Suc 0) (butlast data) = Some rs"
    and m: "map (\<lambda>r. (msg_conversation_id r, msg_creator r, msg_message r, msg_created_at r)) rs =
         concat (map (\<lambda>m. case tm_content m of
                             TextContent v anns # _ \<Rightarrow>
                               [(conversation_id req, AGENT, v, tm_created_at m * 1000)]
                           | _ \<Rightarrow> [])
                   (butlast data))"
    by blast
  from res have "response = \<lparr>status = 200, jsonBody = Some (Inr rs)\<rparr>"
    unfolding ask_result[OF sel cr] askAssistant_def run
    by (simp add: st ls b rs)
  then have r: "status response = 200" and o: "outbound response = rs"
    by (simp_all add: outbound_def)
  show ?thesis
    unfolding o by (rule conjI[OF i conjI[OF s conjI[OF b conjI[OF r m]]]])
qed

theorem no_user_message_drops_oldest_witness:
  "map tm_role assistant_only_image = [assistant, assistant, assistant]
   \<and> map tm_created_at assistant_only_image = [1700000003, 1700000002, 1700000001]
   \<and> map tm_created_at (sinceLastUserMessage assistant_only_image) =
       [1700000003, 1700000002]
   \<and> map (\<lambda>r. (msg_message r, msg_created_at r))
       (outbound (fst (sendMessage example_env
          (example_openai (example_run completed None) (example_run completed None)
             assistant_only_image)
          (example_db False) (Some (example_request ''conv_1'' CONTACT))))) =
       [(''second'', 1700000002000)]"
proof -
  let ?req = "example_request ''conv_1'' CONTACT"
  let ?ai = "example_openai (example_run completed None) (example_run completed None)
               assistant_only_image"
  let ?run = "example_run completed None"
  let ?res = "sendMessage example_env ?ai (example_db False) (Some ?req)"
  let ?ra = "runAssistant example_env ?ai (example_db False) ?req (Some ''asst_1'') ''cont_1''"
  have sel: "selectConversation (example_db False) (conversation_id ?req) =
               Some (False, Some ''asst_1'', ''cont_1'')"
    by (simp add: selectConversation_def example_defs)
  have cr: "creator ?req \<noteq> USER" by (simp add: example_request_def)
  have f: "fst ?ra = Some ?run" by code_simp
  have run: "?ra = (Some ?run, fst (snd ?ra), snd (snd ?ra))"
    using f by (metis prod.collapse)
  have st: "run_status ?run = completed" by (simp add: example_run_def)
  have ls: "messages_list ?ai (run_thread_id ?run) None = Some assistant_only_image"
    by (simp add: example_openai_def)
  have nu: "\<forall>m\<in>set assistant_only_image. tm_role m \<noteq> user"
    by (simp add: assistant_only_image_def example_message_def)
  have ct: "\<forall>m\<in>set (butlast assistant_only_image). tm_content m \<noteq> []"
    by (simp add: assistant_only_image_def example_message_def)
  have res: "?res = (fst ?res, fst (snd ?res), snd (snd ?res))" by simp
  note th = no_user_message_drops_oldest[OF sel cr run st ls nu ct res]
  from th have b: "sinceLastUserMessage assistant_only_image = butlast assistant_only_image"
    by blast
  from th have o: "map (\<lambda>r. (msg_conversation_id r, msg_creator r, msg_message r,
                            msg_created_at r)) (outbound (fst ?res)) =
         concat (map (\<lambda>m. case tm_content m of
                             TextContent v anns # _ \<Rightarrow>
                               [(conversation_id ?req, AGENT, v, tm_created_at m * 1000)]
                           | _ \<Rightarrow> [])
                   (butlast assistant_only_image))"
    by blast
  have "map (\<lambda>r. (msg_message r, msg_created_at r)) (outbound (fst ?res)) =
          map (\<lambda>(c, a, v, t). (v, t))
            (map (\<lambda>r. (msg_conversation_id r, msg_creator r, msg_message r,
                       msg_created_at r)) (outbound (fst ?res)))"
    by (simp add: comp_def)
  also have "\<dots> = [(''second'', 1700000002000)]"
    unfolding o by (simp add: assistant_only_image_def example_message_def)
  finally have w: "map (\<lambda>r. (msg_message r, msg_created_at r)) (outbound (fst ?res)) =
                     [(''second'', 1700000002000)]" .
  have r: "map tm_role assistant_only_image = [assistant, assistant, assistant]"
    by (simp add: assistant_only_image_def example_message_def)
  have t: "map tm_created_at assistant_only_image = [1700000003, 1700000002, 1700000001]"
    by (simp add: assistant_only_image_def example_message_def)
  have u: "map tm_created_at (sinceLastUserMessage assistant_only_image) =
             [1700000003, 1700000002]"
    unfolding b by (simp add: assistant_only_image_def example_message_def)
  show ?thesis by (rule conjI[OF r conjI[OF t conjI[OF u w]]])
qed

section \<open>The Slack bot event path and the interrupted flag\<close>

text \<open>
  What the handler does once the organisation and the Slack user are resolved, as a
  function of the database: the calls begin with the user lookup; for a sender who is
  not an admin the assistant is called next and a message is posted to the thread, the
  answer when the assistant returned one and the apology when it threw; for an admin
  no further call is made.
\<close>

lemma slack_calls:
  assumes org: "find (\<lambda>og. org_id og = ev_organisation_id data) (organisations db) = Some og"
      and usr: "getUserFromSlack env (ev_user_id data) = Some u"
  shows "(\<not> su_is_admin u \<longrightarrow>
           (\<exists>rest. snd (processSlackBotMessage env db data) =
              UsersInfo (ev_user_id data)
                # AssistantCall (org_assistant_id og) (ev_message data)
                # PostMessage (ev_channel_id data)
                    (case handleSingleMessageForOpenAI env (org_assistant_id og)
                            (ev_message data) of
                       Some rs \<Rightarrow> slackResponseText rs | None \<Rightarrow> apology)
                    (ev_thread_ts data)
                # rest))
       \<and> (su_is_admin u \<longrightarrow>
            snd (processSlackBotMessage env db data) = [UsersInfo (ev_user_id data)])"
proof (cases "su_is_admin u")
  case True
  then show ?thesis
    using org usr
    by (simp add: processSlackBotMessage_def answerSender_def saveExchange_def Let_def
          split: prod.splits option.splits)
next
  case False
  show ?thesis
  proof (cases "handleSingleMessageForOpenAI env (org_assistant_id og) (ev_message data)")
    case None
    with False org usr show ?thesis
      by (simp add: processSlackBotMessage_def answerSender_def Let_def split: prod.splits)
  next
    case (Some rs)
    with False org usr show ?thesis
      by (auto simp: processSlackBotMessage_def answerSender_def Let_def
            split: prod.splits option.splits)
  qed
qed

text \<open>
  C10. In the Slack bot event path, once the organisation and the Slack user are
  resolved, whether the assistant is invoked and a message posted depends only on
  whether the sender is a Slack admin. For a sender who is not an admin the assistant
  is invoked and a message is posted to the thread (the answer, or the apology when
  the assistant throws), whatever the interrupted flags of the stored conversations:
  rewriting every flag by any function \<open>f\<close> leaves these calls the same. For an
  admin the only call is the user lookup.
\<close>

theorem slack_ignores_interrupted:
  assumes org: "find (\<lambda>og. org_id og = ev_organisation_id data) (organisations db) = Some og"
      and usr: "getUserFromSlack env (ev_user_id data) = Some u"
      and res: "processSlackBotMessage env db data = (db', calls)"
      and res2: "processSlackBotMessage env
                   (db\<lparr>conversations :=
                        map (\<lambda>c. c\<lparr>conv_interrupted := f c\<rparr>) (conversations db)\<rparr>) data =
                   (db'', calls')"
  shows "(\<not> su_is_admin u \<longrightarrow>
            take 3 calls =
              [UsersInfo (ev_user_id data),
               AssistantCall (org_assistant_id og) (ev_message data),
               PostMessage (ev_channel_id data)
                 (case handleSingleMessageForOpenAI env (org_assistant_id og)
                         (ev_message data) of
                    Some rs \<Rightarrow> slackResponseText rs | None \<Rightarrow> apology)
                 (ev_thread_ts data)]
            \<and> take 3 calls' = take 3 calls)
       \<and> (su_is_admin u \<longrightarrow>
            calls = [UsersInfo (ev_user_id data)] \<and> calls' = calls)"
proof -
  let ?db2 = "db\<lparr>conversations :=
                   map (\<lambda>c. c\<lparr>conv_interrupted := f c\<rparr>) (conversations db)\<rparr>"
  have org2: "find (\<lambda>og. org_id og = ev_organisation_id data) (organisations ?db2) = Some og"
    using org by simp
  from slack_calls[OF org usr] res
  have a: "\<not> su_is_admin u \<longrightarrow>
           (\<exists>rest. calls =
              UsersInfo (ev_user_id data)
                # AssistantCall (org_assistant_id og) (ev_message data)
                # PostMessage (ev_channel_id data)
                    (case handleSingleMessageForOpenAI env (org_assistant_id og)
                            (ev_message data) of
                       Some rs \<Rightarrow> slackResponseText rs | None \<Rightarrow> apology)
                    (ev_thread_ts data)
                # rest)"
    and b: "su_is_admin u \<longrightarrow> calls = [UsersInfo (ev_user_id data)]"
    by simp_all
  from slack_calls[OF org2 usr] res2
  have a2: "\<not> su_is_admin u \<longrightarrow>
           (\<exists>rest. calls' =
              UsersInfo (ev_user_id data)
                # AssistantCall (org_assistant_id og) (ev_message data)
                # PostMessage (ev_channel_id data)
                    (case handleSingleMessageForOpenAI env (org_assistant_id og)
                            (ev_message data) of
                       Some rs \<Rightarrow> slackResponseText rs | None \<Rightarrow> apology)
                    (ev_thread_ts data)
                # rest)"
    and b2: "su_is_admin u \<longrightarrow> calls' = [UsersInfo (ev_user_id data)]"
    by simp_all
  show ?thesis
  proof (cases "su_is_admin u")
    case True
    with b b2 show ?thesis by simp
  next
    case False
    with a a2 show ?thesis by (auto simp: numeral_3_eq_3)
  qed
qed

theorem slack_ignores_interrupted_witness:
  "map conv_interrupted (conversations (example_db True)) = [True]
   \<and> map conv_channel_id (conversations (example_db True)) = [ev_thread_ts example_event]
   \<and> take 3 (snd (processSlackBotMessage (example_slack_env False) (example_db True)
                     example_event)) =
       [UsersInfo ''U1'', AssistantCall (Some ''asst_1'') ''hi'',
        PostMessage ''C1'' (slackResponseText example_reply) ''1700.01'']
   \<and> snd (processSlackBotMessage (example_slack_env True) (example_db True) example_event) =
       [UsersInfo ''U1'']"
proof -
  let ?db = "example_db True"
  let ?db2 = "?db\<lparr>conversations :=
                    map (\<lambda>c. c\<lparr>conv_interrupted := False\<rparr>) (conversations ?db)\<rparr>"
  let ?og = "\<lparr>org_id = ''org_1'', org_name = ''Acme'', org_assistant_id = Some ''asst_1''\<rparr>"
  have org: "find (\<lambda>og. org_id og = ev_organisation_id example_event) (organisations ?db) =
               Some ?og"
    by (simp add: example_db_def example_event_def)
  have i: "map conv_interrupted (conversations ?db) = [True]"
    by (simp add: example_db_def example_conversation_def)
  have t: "map conv_channel_id (conversations ?db) = [ev_thread_ts example_event]"
    by (simp add: example_db_def example_conversation_def example_event_def)
  have a: "take 3 (snd (processSlackBotMessage (example_slack_env False) ?db example_event)) =
       [UsersInfo ''U1'', AssistantCall (Some ''asst_1'') ''hi'',
        PostMessage ''C1'' (slackResponseText example_reply) ''1700.01'']"
  proof -
    let ?env = "example_slack_env False"
    let ?r = "processSlackBotMessage ?env ?db example_event"
    let ?r2 = "processSlackBotMessage ?env ?db2 example_event"
    have usr: "getUserFromSlack ?env (ev_user_id example_event) =
                 Some (example_slack_user False)"
      by (simp add: example_slack_env_def)
    have res: "?r = (fst ?r, snd ?r)" and res2: "?r2 = (fst ?r2, snd ?r2)" by simp_all
    have n: "\<not> su_is_admin (example_slack_user False)"
      by (simp add: example_slack_user_def)
    from slack_ignores_interrupted[OF org usr res res2] n
    have "take 3 (snd ?r) =
              [UsersInfo (ev_user_id example_event),
               AssistantCall (org_assistant_id ?og) (ev_message example_event),
               PostMessage (ev_channel_id example_event)
                 (case handleSingleMessageForOpenAI ?env (org_assistant_id ?og)
                         (ev_message example_event) of
                    Some rs \<Rightarrow> slackResponseText rs | None \<Rightarrow> apology)
                 (ev_thread_ts example_event)]"
      by blast
    then show ?thesis by (simp add: example_event_def example_slack_env_def)
  qed
  have b: "snd (processSlackBotMessage (example_slack_env True) ?db example_event) =
       [UsersInfo ''U1'']"
  proof -
    let ?env = "example_slack_env True"
    let ?r = "processSlackBotMessage ?env ?db example_event"
    let ?r2 = "processSlackBotMessage ?env ?db2 example_event"
    have usr: "getUserFromSlack ?env (ev_user_id example_event) =
                 Some (example_slack_user True)"
      by (simp add: example_slack_env_def)
    have res: "?r = (fst ?r, snd ?r)" and res2: "?r2 = (fst ?r2, snd ?r2)" by simp_all
    have y: "su_is_admin (example_slack_user True)"
      by (simp add: example_slack_user_def)
    from slack_ignores_interrupted[OF org usr res res2] y
    have "snd ?r = [UsersInfo (ev_user_id example_event)]" by blast
    then show ?thesis by (simp add: example_event_def)
  qed
  show ?thesis by (rule conjI[OF i conjI[OF t conjI[OF a b]]])
qed

end
